theory Spec2Isabelle
  imports Main
begin

section \<open>Data model\<close>

text \<open>
  The client profile of \<^verbatim>\<open>app.py\<close> (dataclass \<^verbatim>\<open>ClientProfile\<close>).  Python strings are
  modelled by their UTF-8 bytes, so that equality of strings is equality of byte lists;
  \<^verbatim>\<open>nb_salaries\<close> is an unbounded Python integer.
\<close>

record ClientProfile =
  nom_client :: string
  secteur :: string
  nb_salaries :: int
  presence_cadres :: bool
  type_contrats :: string
  rse_sensible :: bool
  rse_pollution :: string
  coaching_client :: bool
  patrimoine_dirigeant :: string
  particulier_fiscal :: "string list"
  caisse :: bool
  patrimoniale :: bool
  digitalisation :: string
  proche_retraite :: string
  succession_envisagee :: bool
  clients_particuliers_avec_tva :: bool

text \<open>The dictionary returned by \<^verbatim>\<open>infer_segment\<close>.\<close>

record SegmentResult =
  segment :: string
  risk_flags :: "string list"
  compliance_intensity :: string

text \<open>The three local variables of \<^verbatim>\<open>infer_segment\<close>.\<close>

record segment_vars =
  segment_v :: "string list"
  risk_flags_v :: "string list"
  compliance_v :: string

section \<open>The segmentation engine\<close>

text \<open>\<^verbatim>\<open>sep.join(xs)\<close> of Python.\<close>

fun join_str :: "string \<Rightarrow> string list \<Rightarrow> string" where
  "join_str sep [] = []"
| "join_str sep [x] = x"
| "join_str sep (x # y # ys) = x @ sep @ join_str sep (y # ys)"

text \<open>Segment by size (lines 82-87).\<close>

definition seg_size :: "ClientProfile \<Rightarrow> segment_vars \<Rightarrow> segment_vars" where
  "seg_size p v =
     (if nb_salaries p = 0 \<or> type_contrats p = (''Aucun salari'' @ [CHR 0xC3, CHR 0xA9])
      then v\<lparr>segment_v := segment_v v @ [(''Solo/Tr'' @ [CHR 0xC3, CHR 0xA8] @ ''s petite structure'')]\<rparr>
      else if nb_salaries p < 11
      then v\<lparr>segment_v := segment_v v @ [''TPE < 11'']\<rparr>
      else v\<lparr>segment_v := segment_v v @ [(''PME '' @ [CHR 0xE2, CHR 0x89, CHR 0xA5] @ '' 11'')]\<rparr>)"

text \<open>Sector specifics (lines 90-97).\<close>

definition seg_sector :: "ClientProfile \<Rightarrow> segment_vars \<Rightarrow> segment_vars" where
  "seg_sector p v =
     (let v1 = (if secteur p = ''BTP''
                then v\<lparr>segment_v := segment_v v @ [''BTP''],
                       risk_flags_v := risk_flags_v v @ [''Gestion des chantiers et retenues de garantie''],
                       compliance_v := (''Renforc'' @ [CHR 0xC3, CHR 0xA9] @ ''e'')\<rparr>
                else v);
          v2 = (if secteur p = ''E-commerce''
                then v1\<lparr>risk_flags_v := risk_flags_v v1 @ [''TVA OSS/IOSS et plateformes'']\<rparr>
                else v1)
      in if secteur p = ''Industrie''
         then v2\<lparr>risk_flags_v := risk_flags_v v2 @ [''Stocks et immo complexes'']\<rparr>
         else v2)"

text \<open>HR complexity (lines 100-105).\<close>

definition seg_hr :: "ClientProfile \<Rightarrow> segment_vars \<Rightarrow> segment_vars" where
  "seg_hr p v =
     (if nb_salaries p > 0
      then (let v1 = (if presence_cadres p
                      then v\<lparr>risk_flags_v := risk_flags_v v @ [''Cadres & forfait jours'']\<rparr>
                      else v)
            in if nb_salaries p \<ge> 11
               then v1\<lparr>risk_flags_v := risk_flags_v v1 @ [(''CSE / obligations sociales renforc'' @ [CHR 0xC3, CHR 0xA9] @ ''es'')],
                       compliance_v := (''Renforc'' @ [CHR 0xC3, CHR 0xA9] @ ''e'')\<rparr>
               else v1)
      else v)"

text \<open>RSE (lines 108-112).\<close>

definition seg_rse :: "ClientProfile \<Rightarrow> segment_vars \<Rightarrow> segment_vars" where
  "seg_rse p v =
     (if rse_sensible p
      then (if rse_pollution p = ''Importante''
            then v\<lparr>risk_flags_v := risk_flags_v v @ [''Enjeux environnementaux critiques'']\<rparr>
            else if rse_pollution p = ''Moyenne''
            then v\<lparr>risk_flags_v := risk_flags_v v @ [(''Suivi empreinte & conformit'' @ [CHR 0xC3, CHR 0xA9] @ '' environnementale'')]\<rparr>
            else v)
      else v)"

text \<open>Digital (lines 115-118).\<close>

definition seg_digital :: "ClientProfile \<Rightarrow> segment_vars \<Rightarrow> segment_vars" where
  "seg_digital p v =
     (if digitalisation p = ''Pas informatique''
      then v\<lparr>risk_flags_v := risk_flags_v v @ [(''Faible digitalisation (risque d'erreurs et co'' @ [CHR 0xC3, CHR 0xBB] @ ''ts)'')]\<rparr>
      else if digitalisation p = ''Informatique rudimentaire''
      then v\<lparr>risk_flags_v := risk_flags_v v @ [(''Digitalisation partielle '' @ [CHR 0xC3, CHR 0xA0] @ '' structurer'')]\<rparr>
      else v)"

text \<open>Dirigeant / transmission (lines 121-125).\<close>

definition seg_dirigeant :: "ClientProfile \<Rightarrow> segment_vars \<Rightarrow> segment_vars" where
  "seg_dirigeant p v =
     (let v1 = (if proche_retraite p \<in> set [([CHR 0xC3, CHR 0x80] @ '' 5 ans''), ''< 2 ans'']
                then v\<lparr>risk_flags_v := risk_flags_v v @ [(''Horizon retraite '' @ [CHR 0xC3, CHR 0xA0] @ '' anticiper'')]\<rparr>
                else v)
      in if succession_envisagee p
         then v1\<lparr>risk_flags_v := risk_flags_v v1 @ [''Projet de succession / transmission'']\<rparr>
         else v1)"

text \<open>Fiscal particularities (lines 128-136).\<close>

definition seg_fiscal :: "ClientProfile \<Rightarrow> segment_vars \<Rightarrow> segment_vars" where
  "seg_fiscal p v =
     (let v1 = (if ''International'' \<in> set (particulier_fiscal p)
                then v\<lparr>risk_flags_v := risk_flags_v v @ [''Flux internationaux (prix de transfert/TVA)''],
                       compliance_v := (''Renforc'' @ [CHR 0xC3, CHR 0xA9] @ ''e'')\<rparr>
                else v);
          v2 = (if ''Holding'' \<in> set (particulier_fiscal p) \<or> ''SCI'' \<in> set (particulier_fiscal p)
                then v1\<lparr>risk_flags_v := risk_flags_v v1 @ [''Groupe / structuration patrimoniale'']\<rparr>
                else v1)
      in if clients_particuliers_avec_tva p
         then v2\<lparr>risk_flags_v := risk_flags_v v2 @ [(''Risque TVA B2C (r'' @ [CHR 0xC3, CHR 0xA8] @ ''gles sp'' @ [CHR 0xC3, CHR 0xA9] @ ''cifiques)'')]\<rparr>
         else v2)"

text \<open>The local variables when the \<^verbatim>\<open>return\<close> of line 138 is reached.\<close>

definition infer_segment_vars :: "ClientProfile \<Rightarrow> segment_vars" where
  "infer_segment_vars p =
     (let v0 = \<lparr>segment_v = [], risk_flags_v = [], compliance_v = ''Standard''\<rparr>;
          v1 = seg_size p v0;
          v2 = seg_sector p v1;
          v3 = seg_hr p v2;
          v4 = seg_rse p v3;
          v5 = seg_digital p v4;
          v6 = seg_dirigeant p v5
      in seg_fiscal p v6)"

definition infer_segment :: "ClientProfile \<Rightarrow> SegmentResult" where
  "infer_segment p =
     (let v = infer_segment_vars p
      in \<lparr>segment = (if segment_v v \<noteq> [] then join_str '' | '' (segment_v v) else ''Standard''),
          risk_flags = risk_flags_v v,
          compliance_intensity = compliance_v v\<rparr>)"

section \<open>The pricing catalog\<close>

text \<open>An entry of \<^verbatim>\<open>PRICING_TABLE\<close>, and an element of the offer list: the entry with its code.\<close>

record offer_info =
  libelle :: string
  prix :: int

record offer = offer_info +
  code :: string

definition PRICING_TABLE :: "string \<rightharpoonup> offer_info" where
  "PRICING_TABLE = map_of
     [(''social_basique'', \<lparr>libelle = ''Paie & obligations sociales - Pack Essentiel'', prix = 180\<rparr>),
      (''social_plus'', \<lparr>libelle = (''Paie & RH - Pack Plus (audit + proc'' @ [CHR 0xC3, CHR 0xA9] @ ''dures)''), prix = 350\<rparr>),
      (''social_premium'', \<lparr>libelle = ''Paie & RH - Pack Premium (SIRH + KPI sociaux)'', prix = 550\<rparr>),
      (''rse_diag'', \<lparr>libelle = ''Diagnostic RSE & plan d'actions'', prix = 1200\<rparr>),
      (''rse_reporting'', \<lparr>libelle = (''Reporting RSE/CSRD adapt'' @ [CHR 0xC3, CHR 0xA9] @ '' TPE/PME''), prix = 450\<rparr>),
      (''coaching_light'', \<lparr>libelle = ''Coaching dirigeant - Pack Starter (1h/mois)'', prix = 190\<rparr>),
      (''coaching_pro'', \<lparr>libelle = ''Coaching dirigeant - Pack Pro (2h/mois + ateliers)'', prix = 390\<rparr>),
      (''patrimoine_base'', \<lparr>libelle = ''Bilan patrimonial dirigeant'', prix = 900\<rparr>),
      (''patrimoine_avance'', \<lparr>libelle = (''Ing'' @ [CHR 0xC3, CHR 0xA9] @ ''nierie patrimoniale avanc'' @ [CHR 0xC3, CHR 0xA9] @ ''e (holdings/SCI/IF)''), prix = 1800\<rparr>),
      (''fiscal_part'', \<lparr>libelle = (''Traitements fiscaux particuliers (notes sp'' @ [CHR 0xC3, CHR 0xA9] @ ''cifiques)''), prix = 380\<rparr>),
      (''tresorerie'', \<lparr>libelle = (''Cash management & pr'' @ [CHR 0xC3, CHR 0xA9] @ ''visionnels de tr'' @ [CHR 0xC3, CHR 0xA9] @ ''sorerie''), prix = 320\<rparr>),
      (''digital_start'', \<lparr>libelle = ''Digitalisation - Starter (outils facturation, banque)'', prix = 150\<rparr>),
      (''digital_full'', \<lparr>libelle = ''Digitalisation - Full (OCR, Hub, flux API)'', prix = 420\<rparr>),
      (''btp_pack'', \<lparr>libelle = ''Pack BTP (suivi chantiers, retenues, DGD)'', prix = 350\<rparr>),
      (''gestion_budget'', \<lparr>libelle = ''Tableaux de bord & budget (mensuel)'', prix = 280\<rparr>),
      (''revue_qualite'', \<lparr>libelle = (''Revue Qualit'' @ [CHR 0xC3, CHR 0xA9] @ '' comptable & fiscale (trimestrielle)''), prix = 240\<rparr>),
      (''succession'', \<lparr>libelle = (''Anticipation transmission / pacte Dutreil (pr'' @ [CHR 0xC3, CHR 0xA9] @ ''-'' @ [CHR 0xC3, CHR 0xA9] @ ''tude)''), prix = 1200\<rparr>),
      (''retraite'', \<lparr>libelle = (''Bilan retraite & optimisation ('' @ [CHR 0xC3, CHR 0xA9] @ ''tude compl'' @ [CHR 0xC3, CHR 0xA8] @ ''te)''), prix = 750\<rparr>),
      (''international'', \<lparr>libelle = ''International (TVA/DEB/DES/EMEA sanity check)'', prix = 650\<rparr>)]"

section \<open>The offer engine\<close>

text \<open>
  \<^verbatim>\<open>PRICING_TABLE[code]\<close> raises \<^verbatim>\<open>KeyError\<close> on a code that the table lacks: the
  only exception the engine can raise.
\<close>

datatype py_error = KeyError string

definition then_do :: "py_error + 'a \<Rightarrow> ('a \<Rightarrow> py_error + 'b) \<Rightarrow> py_error + 'b" where
  "then_do m f = (case m of Inl e \<Rightarrow> Inl e | Inr x \<Rightarrow> f x)"

text \<open>
  \<^verbatim>\<open>safe_add\<close> (lines 70-73): the key is given the empty list when it is new, then the
  value is appended to the key's list.  After the first step the key is present, so the
  subscript of line 73 cannot fail.
\<close>

definition safe_add :: "(string \<rightharpoonup> 'a list) \<Rightarrow> string \<Rightarrow> 'a \<Rightarrow> (string \<rightharpoonup> 'a list)" where
  "safe_add dic key v =
     (let dic1 = (if dic key = None then dic(key \<mapsto> []) else dic)
      in case dic1 key of
           Some vs \<Rightarrow> dic1(key \<mapsto> vs @ [v])
         | None \<Rightarrow> dic1)"

text \<open>The two local variables that \<^verbatim>\<open>add_offer\<close> updates.\<close>

record offer_vars =
  offers_v :: "offer list"
  rationales_v :: "string \<rightharpoonup> string list"

text \<open>The dictionary returned by \<^verbatim>\<open>compute_offers\<close>.\<close>

record OfferResult =
  offers :: "offer list"
  rationales :: "string \<rightharpoonup> string list"
  total_ht :: int

text \<open>The closure \<^verbatim>\<open>add_offer\<close> (lines 149-152).\<close>

definition add_offer :: "string \<Rightarrow> string \<Rightarrow> offer_vars \<Rightarrow> py_error + offer_vars" where
  "add_offer c reason v =
     (case PRICING_TABLE c of
        None \<Rightarrow> Inl (KeyError c)
      | Some info \<Rightarrow>
          Inr \<lparr>offers_v = offers_v v @ [\<lparr>libelle = libelle info, prix = prix info, code = c\<rparr>],
               rationales_v = safe_add (rationales_v v) (libelle info) reason\<rparr>)"

text \<open>Social / HR (lines 155-161).\<close>

definition offers_social :: "ClientProfile \<Rightarrow> offer_vars \<Rightarrow> py_error + offer_vars" where
  "offers_social p v =
     (if nb_salaries p > 0
      then then_do
             (if nb_salaries p \<ge> 11 \<or> presence_cadres p
              then add_offer ''social_plus'' ([CHR 0xE2, CHR 0x89, CHR 0xA5] @ '' 11 salari'' @ [CHR 0xC3, CHR 0xA9] @ ''s et/ou pr'' @ [CHR 0xC3, CHR 0xA9] @ ''sence de cadres'') v
              else add_offer ''social_basique'' ''Paie et obligations sociales standard'' v)
             (\<lambda>v1. if nb_salaries p \<ge> 25
                   then add_offer ''social_premium'' (''Effectif significatif '' @ [CHR 0xE2, CHR 0x86, CHR 0x92] @ '' SIRH & KPI sociaux'') v1
                   else Inr v1)
      else Inr v)"

text \<open>RSE (lines 164-167).\<close>

definition offers_rse :: "ClientProfile \<Rightarrow> offer_vars \<Rightarrow> py_error + offer_vars" where
  "offers_rse p v =
     (if rse_sensible p
      then then_do
             (add_offer ''rse_diag'' (''Client sensible RSE '' @ [CHR 0xE2, CHR 0x86, CHR 0x92] @ '' diagnostic & plan d'actions'') v)
             (\<lambda>v1. if rse_pollution p \<in> set [''Moyenne'', ''Importante'']
                   then add_offer ''rse_reporting'' (''Suivi des indicateurs RSE (empreinte, '' @ [CHR 0xC3, CHR 0xA9] @ ''nergie, d'' @ [CHR 0xC3, CHR 0xA9] @ ''chets)'') v1
                   else Inr v1)
      else Inr v)"

text \<open>Coaching of the manager (lines 170-173).\<close>

definition offers_coaching :: "ClientProfile \<Rightarrow> offer_vars \<Rightarrow> py_error + offer_vars" where
  "offers_coaching p v =
     then_do
       (if coaching_client p \<and> patrimoine_dirigeant p = ''Modeste''
        then add_offer ''coaching_light'' (''Accompagnement dirigeant r'' @ [CHR 0xC3, CHR 0xA9] @ ''gulier (starter)'') v
        else Inr v)
       (\<lambda>v1. if coaching_client p \<and> patrimoine_dirigeant p = ''Important''
             then add_offer ''coaching_pro'' (''Accompagnement renforc'' @ [CHR 0xC3, CHR 0xA9] @ '' pour enjeux strat'' @ [CHR 0xC3, CHR 0xA9] @ ''giques'') v1
             else Inr v1)"

text \<open>Patrimonial (lines 176-179).\<close>

definition offers_patrimoine :: "ClientProfile \<Rightarrow> offer_vars \<Rightarrow> py_error + offer_vars" where
  "offers_patrimoine p v =
     then_do
       (if patrimoniale p \<or> patrimoine_dirigeant p = ''Important''
        then add_offer ''patrimoine_base'' (''Besoin patrimonial identifi'' @ [CHR 0xC3, CHR 0xA9]) v
        else Inr v)
       (\<lambda>v1. if (''Holding'' \<in> set (particulier_fiscal p) \<or> ''SCI'' \<in> set (particulier_fiscal p))
                \<and> (patrimoniale p \<or> patrimoine_dirigeant p = ''Important'')
             then add_offer ''patrimoine_avance'' ''Structuration groupe / immo patrimonial'' v1
             else Inr v1)"

text \<open>Fiscal particularities (lines 182-185).\<close>

definition offers_fiscal :: "ClientProfile \<Rightarrow> offer_vars \<Rightarrow> py_error + offer_vars" where
  "offers_fiscal p v =
     (if length (particulier_fiscal p) > 0
      then then_do
             (add_offer ''fiscal_part'' (''Cas fiscaux sp'' @ [CHR 0xC3, CHR 0xA9] @ ''cifiques '' @ [CHR 0xC3, CHR 0xA0] @ '' documenter'') v)
             (\<lambda>v1. if ''International'' \<in> set (particulier_fiscal p)
                   then add_offer ''international'' (''Flux intracommunautaires / export '' @ [CHR 0xE2, CHR 0x86, CHR 0x92] @ '' contr'' @ [CHR 0xC3, CHR 0xB4] @ ''les d'' @ [CHR 0xC3, CHR 0xA9] @ ''di'' @ [CHR 0xC3, CHR 0xA9] @ ''s'') v1
                   else Inr v1)
      else Inr v)"

text \<open>Cash / management (lines 188-191).\<close>

definition offers_gestion :: "ClientProfile \<Rightarrow> offer_vars \<Rightarrow> py_error + offer_vars" where
  "offers_gestion p v =
     then_do
       (if caisse p \<or> secteur p \<in> set [''E-commerce'', ''Industrie'', ''BTP'']
        then add_offer ''tresorerie'' (''Volatilit'' @ [CHR 0xC3, CHR 0xA9] @ '' de tr'' @ [CHR 0xC3, CHR 0xA9] @ ''sorerie / besoin de pilotage'') v
        else Inr v)
       (\<lambda>v1. then_do
          (add_offer ''gestion_budget'' (''Tableaux de bord et budget mensuel utiles '' @ [CHR 0xC3, CHR 0xA0] @ '' tout profil PME/TPE'') v1)
          (add_offer ''revue_qualite'' (''S'' @ [CHR 0xC3, CHR 0xA9] @ ''curiser la qualit'' @ [CHR 0xC3, CHR 0xA9] @ '' comptable et fiscale'')))"

text \<open>Digitalisation (lines 194-197).\<close>

definition offers_digital :: "ClientProfile \<Rightarrow> offer_vars \<Rightarrow> py_error + offer_vars" where
  "offers_digital p v =
     (if digitalisation p = ''Pas informatique''
      then add_offer ''digital_start'' ''Mettre en place la base des outils digitaux'' v
      else if digitalisation p = ''Informatique rudimentaire''
      then add_offer ''digital_full'' ''Structurer et automatiser les flux (OCR/API/Banque)'' v
      else Inr v)"

text \<open>Sector packs (lines 200-201).\<close>

definition offers_secteur :: "ClientProfile \<Rightarrow> offer_vars \<Rightarrow> py_error + offer_vars" where
  "offers_secteur p v =
     (if secteur p = ''BTP''
      then add_offer ''btp_pack'' (''Sp'' @ [CHR 0xC3, CHR 0xA9] @ ''cificit'' @ [CHR 0xC3, CHR 0xA9] @ ''s chantiers (retenues, situations, DGD)'') v
      else Inr v)"

text \<open>Transmission / retirement (lines 204-207).\<close>

definition offers_transmission :: "ClientProfile \<Rightarrow> offer_vars \<Rightarrow> py_error + offer_vars" where
  "offers_transmission p v =
     then_do
       (if proche_retraite p \<in> set [([CHR 0xC3, CHR 0x80] @ '' 5 ans''), ''< 2 ans'']
        then add_offer ''retraite'' (''Horizon de d'' @ [CHR 0xC3, CHR 0xA9] @ ''part '' @ [CHR 0xE2, CHR 0x86, CHR 0x92] @ '' bilan retraite & options'') v
        else Inr v)
       (\<lambda>v1. if succession_envisagee p
             then add_offer ''succession'' (''Projet de transmission '' @ [CHR 0xE2, CHR 0x86, CHR 0x92] @ '' pr'' @ [CHR 0xC3, CHR 0xA9] @ ''-'' @ [CHR 0xC3, CHR 0xA9] @ ''tude Dutreil/holding'') v1
             else Inr v1)"

text \<open>Statements in sequence: the first exception ends the run.\<close>

fun run_sections :: "(offer_vars \<Rightarrow> py_error + offer_vars) list \<Rightarrow> offer_vars \<Rightarrow> py_error + offer_vars" where
  "run_sections [] v = Inr v"
| "run_sections (f # fs) v = then_do (f v) (run_sections fs)"

text \<open>
  Lines 146-207: the raw offer list and the rationales when the deduplication starts.
\<close>

definition collect_offers :: "ClientProfile \<Rightarrow> py_error + offer_vars" where
  "collect_offers p =
     run_sections
       [offers_social p, offers_rse p, offers_coaching p, offers_patrimoine p, offers_fiscal p,
        offers_gestion p, offers_digital p, offers_secteur p, offers_transmission p]
       \<lparr>offers_v = [], rationales_v = Map.empty\<rparr>"

text \<open>
  The loop of lines 210-215, on the rest of the raw list, the set \<^verbatim>\<open>seen\<close> and the list
  \<^verbatim>\<open>unique_offers\<close>.
\<close>

fun dedup_loop :: "offer list \<Rightarrow> string set \<Rightarrow> offer list \<Rightarrow> offer list" where
  "dedup_loop [] seen unique_offers = unique_offers"
| "dedup_loop (x # xs) seen unique_offers =
     (if code x \<notin> seen
      then dedup_loop xs (insert (code x) seen) (unique_offers @ [x])
      else dedup_loop xs seen unique_offers)"

definition compute_offers :: "ClientProfile \<Rightarrow> py_error + OfferResult" where
  "compute_offers p =
     then_do (collect_offers p)
       (\<lambda>v. let unique_offers = dedup_loop (offers_v v) {} [];
                total = sum_list (map prix unique_offers)
            in Inr \<lparr>offers = unique_offers, rationales = rationales_v v, total_ht = total\<rparr>)"

section \<open>The engines as calls on the process state\<close>

text \<open>
  What a call can read and write: the module's global \<^verbatim>\<open>PRICING_TABLE\<close> (a mutable
  dictionary, line 38), and the local variables of the two engines, kept here as two slots
  that outlive the call, so that what a call leaves behind is there for the next one to
  see.  Each statement of the source is a step on this state.
\<close>

record py_state =
  g_PRICING_TABLE :: "string \<rightharpoonup> offer_info"
  f_segment :: segment_vars
  f_offers :: offer_vars

text \<open>A statement that may raise: the exception, if any, and the state it leaves.\<close>

type_synonym stmt = "py_state \<Rightarrow> (py_error + unit) \<times> py_state"

definition skip_st :: stmt where
  "skip_st s = (Inr (), s)"

definition seq_st :: "stmt \<Rightarrow> stmt \<Rightarrow> stmt" where
  "seq_st m1 m2 s = (case m1 s of (Inl e, s1) \<Rightarrow> (Inl e, s1) | (Inr u, s1) \<Rightarrow> m2 s1)"

fun run_stmts :: "stmt list \<Rightarrow> stmt" where
  "run_stmts [] s = skip_st s"
| "run_stmts (m # ms) s = seq_st m (run_stmts ms) s"

text \<open>
  \<^verbatim>\<open>add_offer\<close> (lines 149-152) on the state: the table is read from the global at the
  time of the call, the two accumulators are updated in place.
\<close>

definition add_offer_st :: "string \<Rightarrow> string \<Rightarrow> stmt" where
  "add_offer_st c reason s =
     (case g_PRICING_TABLE s c of
        None \<Rightarrow> (Inl (KeyError c), s)
      | Some info \<Rightarrow>
          (Inr (),
           s\<lparr>f_offers :=
               \<lparr>offers_v = offers_v (f_offers s) @ [\<lparr>libelle = libelle info, prix = prix info, code = c\<rparr>],
                rationales_v = safe_add (rationales_v (f_offers s)) (libelle info) reason\<rparr>\<rparr>))"

text \<open>The blocks of \<^verbatim>\<open>compute_offers\<close> (lines 155-207) as statements.\<close>

definition offers_social_st :: "ClientProfile \<Rightarrow> stmt" where
  "offers_social_st p =
     (if nb_salaries p > 0
      then seq_st
             (if nb_salaries p \<ge> 11 \<or> presence_cadres p
              then add_offer_st ''social_plus'' ([CHR 0xE2, CHR 0x89, CHR 0xA5] @ '' 11 salari'' @ [CHR 0xC3, CHR 0xA9] @ ''s et/ou pr'' @ [CHR 0xC3, CHR 0xA9] @ ''sence de cadres'')
              else add_offer_st ''social_basique'' ''Paie et obligations sociales standard'')
             (if nb_salaries p \<ge> 25
              then add_offer_st ''social_premium'' (''Effectif significatif '' @ [CHR 0xE2, CHR 0x86, CHR 0x92] @ '' SIRH & KPI sociaux'')
              else skip_st)
      else skip_st)"

definition offers_rse_st :: "ClientProfile \<Rightarrow> stmt" where
  "offers_rse_st p =
     (if rse_sensible p
      then seq_st
             (add_offer_st ''rse_diag'' (''Client sensible RSE '' @ [CHR 0xE2, CHR 0x86, CHR 0x92] @ '' diagnostic & plan d'actions''))
             (if rse_pollution p \<in> set [''Moyenne'', ''Importante'']
              then add_offer_st ''rse_reporting'' (''Suivi des indicateurs RSE (empreinte, '' @ [CHR 0xC3, CHR 0xA9] @ ''nergie, d'' @ [CHR 0xC3, CHR 0xA9] @ ''chets)'')
              else skip_st)
      else skip_st)"

definition offers_coaching_st :: "ClientProfile \<Rightarrow> stmt" where
  "offers_coaching_st p =
     seq_st
       (if coaching_client p \<and> patrimoine_dirigeant p = ''Modeste''
        then add_offer_st ''coaching_light'' (''Accompagnement dirigeant r'' @ [CHR 0xC3, CHR 0xA9] @ ''gulier (starter)'')
        else skip_st)
       (if coaching_client p \<and> patrimoine_dirigeant p = ''Important''
        then add_offer_st ''coaching_pro'' (''Accompagnement renforc'' @ [CHR 0xC3, CHR 0xA9] @ '' pour enjeux strat'' @ [CHR 0xC3, CHR 0xA9] @ ''giques'')
        else skip_st)"

definition offers_patrimoine_st :: "ClientProfile \<Rightarrow> stmt" where
  "offers_patrimoine_st p =
     seq_st
       (if patrimoniale p \<or> patrimoine_dirigeant p = ''Important''
        then add_offer_st ''patrimoine_base'' (''Besoin patrimonial identifi'' @ [CHR 0xC3, CHR 0xA9])
        else skip_st)
       (if (''Holding'' \<in> set (particulier_fiscal p) \<or> ''SCI'' \<in> set (particulier_fiscal p))
           \<and> (patrimoniale p \<or> patrimoine_dirigeant p = ''Important'')
        then add_offer_st ''patrimoine_avance'' ''Structuration groupe / immo patrimonial''
        else skip_st)"

definition offers_fiscal_st :: "ClientProfile \<Rightarrow> stmt" where
  "offers_fiscal_st p =
     (if length (particulier_fiscal p) > 0
      then seq_st
             (add_offer_st ''fiscal_part'' (''Cas fiscaux sp'' @ [CHR 0xC3, CHR 0xA9] @ ''cifiques '' @ [CHR 0xC3, CHR 0xA0] @ '' documenter''))
             (if ''International'' \<in> set (particulier_fiscal p)
              then add_offer_st ''international'' (''Flux intracommunautaires / export '' @ [CHR 0xE2, CHR 0x86, CHR 0x92] @ '' contr'' @ [CHR 0xC3, CHR 0xB4] @ ''les d'' @ [CHR 0xC3, CHR 0xA9] @ ''di'' @ [CHR 0xC3, CHR 0xA9] @ ''s'')
              else skip_st)
      else skip_st)"

definition offers_gestion_st :: "ClientProfile \<Rightarrow> stmt" where
  "offers_gestion_st p =
     seq_st
       (if caisse p \<or> secteur p \<in> set [''E-commerce'', ''Industrie'', ''BTP'']
        then add_offer_st ''tresorerie'' (''Volatilit'' @ [CHR 0xC3, CHR 0xA9] @ '' de tr'' @ [CHR 0xC3, CHR 0xA9] @ ''sorerie / besoin de pilotage'')
        else skip_st)
       (seq_st
          (add_offer_st ''gestion_budget'' (''Tableaux de bord et budget mensuel utiles '' @ [CHR 0xC3, CHR 0xA0] @ '' tout profil PME/TPE''))
          (add_offer_st ''revue_qualite'' (''S'' @ [CHR 0xC3, CHR 0xA9] @ ''curiser la qualit'' @ [CHR 0xC3, CHR 0xA9] @ '' comptable et fiscale'')))"

definition offers_digital_st :: "ClientProfile \<Rightarrow> stmt" where
  "offers_digital_st p =
     (if digitalisation p = ''Pas informatique''
      then add_offer_st ''digital_start'' ''Mettre en place la base des outils digitaux''
      else if digitalisation p = ''Informatique rudimentaire''
      then add_offer_st ''digital_full'' ''Structurer et automatiser les flux (OCR/API/Banque)''
      else skip_st)"

definition offers_secteur_st :: "ClientProfile \<Rightarrow> stmt" where
  "offers_secteur_st p =
     (if secteur p = ''BTP''
      then add_offer_st ''btp_pack'' (''Sp'' @ [CHR 0xC3, CHR 0xA9] @ ''cificit'' @ [CHR 0xC3, CHR 0xA9] @ ''s chantiers (retenues, situations, DGD)'')
      else skip_st)"

definition offers_transmission_st :: "ClientProfile \<Rightarrow> stmt" where
  "offers_transmission_st p =
     seq_st
       (if proche_retraite p \<in> set [([CHR 0xC3, CHR 0x80] @ '' 5 ans''), ''< 2 ans'']
        then add_offer_st ''retraite'' (''Horizon de d'' @ [CHR 0xC3, CHR 0xA9] @ ''part '' @ [CHR 0xE2, CHR 0x86, CHR 0x92] @ '' bilan retraite & options'')
        else skip_st)
       (if succession_envisagee p
        then add_offer_st ''succession'' (''Projet de transmission '' @ [CHR 0xE2, CHR 0x86, CHR 0x92] @ '' pr'' @ [CHR 0xC3, CHR 0xA9] @ ''-'' @ [CHR 0xC3, CHR 0xA9] @ ''tude Dutreil/holding'')
        else skip_st)"

text \<open>
  A call of \<^verbatim>\<open>compute_offers\<close>: lines 146-147 set the two accumulators to the empty
  list and the empty dictionary, the blocks run in order, and lines 210-222 build the
  result.  An exception leaves the call with the state as it is at the raise.
\<close>

definition compute_offers_st :: "ClientProfile \<Rightarrow> py_state \<Rightarrow> (py_error + OfferResult) \<times> py_state" where
  "compute_offers_st p s =
     (let s0 = s\<lparr>f_offers := \<lparr>offers_v = [], rationales_v = Map.empty\<rparr>\<rparr>
      in case run_stmts
                [offers_social_st p, offers_rse_st p, offers_coaching_st p, offers_patrimoine_st p,
                 offers_fiscal_st p, offers_gestion_st p, offers_digital_st p, offers_secteur_st p,
                 offers_transmission_st p] s0 of
           (Inl e, s1) \<Rightarrow> (Inl e, s1)
         | (Inr u, s1) \<Rightarrow>
             (let unique_offers = dedup_loop (offers_v (f_offers s1)) {} [];
                  total = sum_list (map prix unique_offers)
              in (Inr \<lparr>offers = unique_offers, rationales = rationales_v (f_offers s1),
                       total_ht = total\<rparr>, s1)))"

text \<open>
  A call of \<^verbatim>\<open>infer_segment\<close>: lines 77-79 set the three variables, the blocks of lines
  82-136 update them in order, and lines 138-142 build the result.
\<close>

definition infer_segment_st :: "ClientProfile \<Rightarrow> py_state \<Rightarrow> SegmentResult \<times> py_state" where
  "infer_segment_st p s =
     (let s0 = s\<lparr>f_segment := \<lparr>segment_v = [], risk_flags_v = [], compliance_v = ''Standard''\<rparr>\<rparr>;
          s1 = s0\<lparr>f_segment := seg_size p (f_segment s0)\<rparr>;
          s2 = s1\<lparr>f_segment := seg_sector p (f_segment s1)\<rparr>;
          s3 = s2\<lparr>f_segment := seg_hr p (f_segment s2)\<rparr>;
          s4 = s3\<lparr>f_segment := seg_rse p (f_segment s3)\<rparr>;
          s5 = s4\<lparr>f_segment := seg_digital p (f_segment s4)\<rparr>;
          s6 = s5\<lparr>f_segment := seg_dirigeant p (f_segment s5)\<rparr>;
          s7 = s6\<lparr>f_segment := seg_fiscal p (f_segment s6)\<rparr>;
          v = f_segment s7
      in (\<lparr>segment = (if segment_v v \<noteq> [] then join_str '' | '' (segment_v v) else ''Standard''),
           risk_flags = risk_flags_v v,
           compliance_intensity = compliance_v v\<rparr>, s7))"

text \<open>A session: calls of the two engines one after the other on the same process state.\<close>

datatype call = InferSegment ClientProfile | ComputeOffers ClientProfile

datatype answer = Segment SegmentResult | Offers "py_error + OfferResult"

fun do_call :: "call \<Rightarrow> py_state \<Rightarrow> answer \<times> py_state" where
  "do_call (InferSegment p) s = (case infer_segment_st p s of (r, s1) \<Rightarrow> (Segment r, s1))"
| "do_call (ComputeOffers p) s = (case compute_offers_st p s of (r, s1) \<Rightarrow> (Offers r, s1))"

fun run_calls :: "call list \<Rightarrow> py_state \<Rightarrow> answer list \<times> py_state" where
  "run_calls [] s = ([], s)"
| "run_calls (c # cs) s =
     (case do_call c s of (a, s1) \<Rightarrow> (case run_calls cs s1 of (as, s2) \<Rightarrow> (a # as, s2)))"

section \<open>The rule table of the specification\<close>

text \<open>
  The offer rules as the specification lists them: guard, emitted code and justification,
  in evaluation order, one table for each block of the source.
\<close>

type_synonym offer_rule = "(ClientProfile \<Rightarrow> bool) \<times> string \<times> string"

definition rules_social :: "offer_rule list" where
  "rules_social =
     [(\<lambda>p. nb_salaries p > 0 \<and> (nb_salaries p \<ge> 11 \<or> presence_cadres p),
       ''social_plus'', ([CHR 0xE2, CHR 0x89, CHR 0xA5] @ '' 11 salari'' @ [CHR 0xC3, CHR 0xA9] @ ''s et/ou pr'' @ [CHR 0xC3, CHR 0xA9] @ ''sence de cadres'')),
      (\<lambda>p. nb_salaries p > 0 \<and> \<not> (nb_salaries p \<ge> 11 \<or> presence_cadres p),
       ''social_basique'', ''Paie et obligations sociales standard''),
      (\<lambda>p. nb_salaries p \<ge> 25,
       ''social_premium'', (''Effectif significatif '' @ [CHR 0xE2, CHR 0x86, CHR 0x92] @ '' SIRH & KPI sociaux''))]"

definition rules_rse :: "offer_rule list" where
  "rules_rse =
     [(\<lambda>p. rse_sensible p,
       ''rse_diag'', (''Client sensible RSE '' @ [CHR 0xE2, CHR 0x86, CHR 0x92] @ '' diagnostic & plan d'actions'')),
      (\<lambda>p. rse_sensible p \<and> (rse_pollution p = ''Moyenne'' \<or> rse_pollution p = ''Importante''),
       ''rse_reporting'', (''Suivi des indicateurs RSE (empreinte, '' @ [CHR 0xC3, CHR 0xA9] @ ''nergie, d'' @ [CHR 0xC3, CHR 0xA9] @ ''chets)''))]"

definition rules_coaching :: "offer_rule list" where
  "rules_coaching =
     [(\<lambda>p. coaching_client p \<and> patrimoine_dirigeant p = ''Modeste'',
       ''coaching_light'', (''Accompagnement dirigeant r'' @ [CHR 0xC3, CHR 0xA9] @ ''gulier (starter)'')),
      (\<lambda>p. coaching_client p \<and> patrimoine_dirigeant p = ''Important'',
       ''coaching_pro'', (''Accompagnement renforc'' @ [CHR 0xC3, CHR 0xA9] @ '' pour enjeux strat'' @ [CHR 0xC3, CHR 0xA9] @ ''giques''))]"

definition rules_patrimoine :: "offer_rule list" where
  "rules_patrimoine =
     [(\<lambda>p. patrimoniale p \<or> patrimoine_dirigeant p = ''Important'',
       ''patrimoine_base'', (''Besoin patrimonial identifi'' @ [CHR 0xC3, CHR 0xA9])),
      (\<lambda>p. (''Holding'' \<in> set (particulier_fiscal p) \<or> ''SCI'' \<in> set (particulier_fiscal p))
            \<and> (patrimoniale p \<or> patrimoine_dirigeant p = ''Important''),
       ''patrimoine_avance'', ''Structuration groupe / immo patrimonial'')]"

definition rules_fiscal :: "offer_rule list" where
  "rules_fiscal =
     [(\<lambda>p. particulier_fiscal p \<noteq> [],
       ''fiscal_part'', (''Cas fiscaux sp'' @ [CHR 0xC3, CHR 0xA9] @ ''cifiques '' @ [CHR 0xC3, CHR 0xA0] @ '' documenter'')),
      (\<lambda>p. particulier_fiscal p \<noteq> [] \<and> ''International'' \<in> set (particulier_fiscal p),
       ''international'', (''Flux intracommunautaires / export '' @ [CHR 0xE2, CHR 0x86, CHR 0x92] @ '' contr'' @ [CHR 0xC3, CHR 0xB4] @ ''les d'' @ [CHR 0xC3, CHR 0xA9] @ ''di'' @ [CHR 0xC3, CHR 0xA9] @ ''s''))]"

definition rules_gestion :: "offer_rule list" where
  "rules_gestion =
     [(\<lambda>p. caisse p \<or> secteur p = ''E-commerce'' \<or> secteur p = ''Industrie'' \<or> secteur p = ''BTP'',
       ''tresorerie'', (''Volatilit'' @ [CHR 0xC3, CHR 0xA9] @ '' de tr'' @ [CHR 0xC3, CHR 0xA9] @ ''sorerie / besoin de pilotage'')),
      (\<lambda>p. True,
       ''gestion_budget'', (''Tableaux de bord et budget mensuel utiles '' @ [CHR 0xC3, CHR 0xA0] @ '' tout profil PME/TPE'')),
      (\<lambda>p. True,
       ''revue_qualite'', (''S'' @ [CHR 0xC3, CHR 0xA9] @ ''curiser la qualit'' @ [CHR 0xC3, CHR 0xA9] @ '' comptable et fiscale''))]"

definition rules_digital :: "offer_rule list" where
  "rules_digital =
     [(\<lambda>p. digitalisation p = ''Pas informatique'',
       ''digital_start'', ''Mettre en place la base des outils digitaux''),
      (\<lambda>p. digitalisation p = ''Informatique rudimentaire'',
       ''digital_full'', ''Structurer et automatiser les flux (OCR/API/Banque)'')]"

definition rules_secteur :: "offer_rule list" where
  "rules_secteur =
     [(\<lambda>p. secteur p = ''BTP'',
       ''btp_pack'', (''Sp'' @ [CHR 0xC3, CHR 0xA9] @ ''cificit'' @ [CHR 0xC3, CHR 0xA9] @ ''s chantiers (retenues, situations, DGD)''))]"

definition rules_transmission :: "offer_rule list" where
  "rules_transmission =
     [(\<lambda>p. proche_retraite p = ([CHR 0xC3, CHR 0x80] @ '' 5 ans'') \<or> proche_retraite p = ''< 2 ans'',
       ''retraite'', (''Horizon de d'' @ [CHR 0xC3, CHR 0xA9] @ ''part '' @ [CHR 0xE2, CHR 0x86, CHR 0x92] @ '' bilan retraite & options'')),
      (\<lambda>p. succession_envisagee p,
       ''succession'', (''Projet de transmission '' @ [CHR 0xE2, CHR 0x86, CHR 0x92] @ '' pr'' @ [CHR 0xC3, CHR 0xA9] @ ''-'' @ [CHR 0xC3, CHR 0xA9] @ ''tude Dutreil/holding''))]"

definition offer_rules :: "offer_rule list" where
  "offer_rules =
     rules_social @ rules_rse @ rules_coaching @ rules_patrimoine @ rules_fiscal
       @ rules_gestion @ rules_digital @ rules_secteur @ rules_transmission"

text \<open>The code and justification of the rules whose guard holds, in order.\<close>

definition fire :: "ClientProfile \<Rightarrow> offer_rule list \<Rightarrow> (string \<times> string) list" where
  "fire p rs = map snd (filter (\<lambda>r. fst r p) rs)"

text \<open>The calls of \<^verbatim>\<open>add_offer\<close> for a list of codes and justifications.\<close>

fun emit :: "(string \<times> string) list \<Rightarrow> offer_vars \<Rightarrow> py_error + offer_vars" where
  "emit [] v = Inr v"
| "emit (x # xs) v = then_do (add_offer (fst x) (snd x) v) (emit xs)"

text \<open>Keep the first occurrence of each code, as the specification words the deduplication.\<close>

fun keep_first :: "offer list \<Rightarrow> offer list" where
  "keep_first [] = []"
| "keep_first (x # xs) = x # keep_first (filter (\<lambda>y. code y \<noteq> code x) xs)"

text \<open>
  The variant of \<^verbatim>\<open>compute_offers\<close> without the deduplication pass: the raw list, and
  the total summed over it.
\<close>

definition compute_offers_raw :: "ClientProfile \<Rightarrow> py_error + OfferResult" where
  "compute_offers_raw p =
     then_do (collect_offers p)
       (\<lambda>v. Inr \<lparr>offers = offers_v v, rationales = rationales_v v,
                 total_ht = sum_list (map prix (offers_v v))\<rparr>)"

text \<open>An offer is an entry of the catalog under its code.\<close>

definition in_catalog :: "offer \<Rightarrow> bool" where
  "in_catalog x = (PRICING_TABLE (code x) = Some \<lparr>libelle = libelle x, prix = prix x\<rparr>)"

text \<open>A label has at least one justification in a rationale mapping.\<close>

definition justified :: "(string \<rightharpoonup> string list) \<Rightarrow> string \<Rightarrow> bool" where
  "justified m l = (case m l of None \<Rightarrow> False | Some js \<Rightarrow> js \<noteq> [])"

text \<open>The three size tags of the segment label.\<close>

definition size_tags :: "string list" where
  "size_tags = [(''Solo/Tr'' @ [CHR 0xC3, CHR 0xA8] @ ''s petite structure''), ''TPE < 11'', (''PME '' @ [CHR 0xE2, CHR 0x89, CHR 0xA5] @ '' 11'')]"

section \<open>Test profiles\<close>

text \<open>Scenario A of the specification; the name and the contract type are left open.\<close>

definition scenario_a :: "string \<Rightarrow> string \<Rightarrow> ClientProfile" where
  "scenario_a n t =
     \<lparr>nom_client = n, secteur = ''Services'', nb_salaries = 0, presence_cadres = False,
      type_contrats = t, rse_sensible = False, rse_pollution = ''Faible/Non'',
      coaching_client = False, patrimoine_dirigeant = ''Modeste'', particulier_fiscal = [],
      caisse = False, patrimoniale = False, digitalisation = ''Informatique rudimentaire'',
      proche_retraite = ''Loin'', succession_envisagee = False,
      clients_particuliers_avec_tva = False\<rparr>"

text \<open>A construction firm of fifteen employees, with most rules firing.\<close>

definition scenario_b :: ClientProfile where
  "scenario_b =
     \<lparr>nom_client = ''Client DEMO'', secteur = ''BTP'', nb_salaries = 15, presence_cadres = True,
      type_contrats = ''CDI'', rse_sensible = True, rse_pollution = ''Importante'',
      coaching_client = True, patrimoine_dirigeant = ''Important'',
      particulier_fiscal = [''International'', ''Holding''],
      caisse = False, patrimoniale = True, digitalisation = ''Pas informatique'',
      proche_retraite = ''< 2 ans'', succession_envisagee = True,
      clients_particuliers_avec_tva = True\<rparr>"

text \<open>The codes that the two test profiles receive, in order.\<close>

definition scenario_a_codes :: "string list" where
  "scenario_a_codes = [''gestion_budget'', ''revue_qualite'', ''digital_full'']"

definition scenario_b_codes :: "string list" where
  "scenario_b_codes =
     [''social_plus'', ''rse_diag'', ''rse_reporting'', ''coaching_pro'', ''patrimoine_base'',
      ''patrimoine_avance'', ''fiscal_part'', ''international'', ''tresorerie'',
      ''gestion_budget'', ''revue_qualite'', ''digital_start'', ''btp_pack'', ''retraite'',
      ''succession'']"

text \<open>What each engine returns as a function of the profile, with the catalog as shipped.\<close>

fun answer_of :: "call \<Rightarrow> answer" where
  "answer_of (InferSegment p) = Segment (infer_segment p)"
| "answer_of (ComputeOffers p) = Offers (compute_offers p)"

text \<open>
  A statement on the state does what a block does on the two accumulators, wherever the
  global holds the catalog as shipped, and leaves the global as it is.
\<close>

definition simulates :: "stmt \<Rightarrow> (offer_vars \<Rightarrow> py_error + offer_vars) \<Rightarrow> bool" where
  "simulates m f =
     (\<forall>s. g_PRICING_TABLE s = PRICING_TABLE \<longrightarrow>
        g_PRICING_TABLE (snd (m s)) = PRICING_TABLE
        \<and> (case f (f_offers s) of
             Inl e \<Rightarrow> fst (m s) = Inl e
           | Inr v \<Rightarrow> m s = (Inr (), s\<lparr>f_offers := v\<rparr>)))"

text \<open>A process state that earlier calls have used: both slots hold what they left.\<close>

definition used_state :: py_state where
  "used_state =
     \<lparr>g_PRICING_TABLE = PRICING_TABLE,
      f_segment = \<lparr>segment_v = [''BTP''],
                   risk_flags_v = [''Stocks et immo complexes''],
                   compliance_v = (''Renforc'' @ [CHR 0xC3, CHR 0xA9] @ ''e'')\<rparr>,
      f_offers = \<lparr>offers_v = [\<lparr>libelle = ''Pack BTP (suivi chantiers, retenues, DGD)'', prix = 350,
                                code = ''btp_pack''\<rparr>],
                  rationales_v = Map.empty\<rparr>\<rparr>"

section \<open>Properties of the engines\<close>

lemma then_do_Inr [simp]: "then_do (Inr x) f = f x"
  by (simp add: then_do_def)

lemma then_do_Inl [simp]: "then_do (Inl e) f = Inl e"
  by (simp add: then_do_def)

lemma then_do_return [simp]: "then_do m Inr = m"
  by (cases m) simp_all

lemma emit_Nil_fun [simp]: "emit [] = Inr"
  by (rule ext) simp

lemma emit_Cons_fun: "emit (x # xs) = (\<lambda>v. then_do (add_offer (fst x) (snd x) v) (emit xs))"
  by (rule ext) simp

lemma emit_append: "emit (xs @ ys) v = then_do (emit xs v) (emit ys)"
proof (induction xs arbitrary: v)
  case Nil
  show ?case by simp
next
  case (Cons x xs)
  show ?case
  proof (cases "add_offer (fst x) (snd x) v")
    case (Inl e)
    then show ?thesis by simp
  next
    case (Inr v1)
    then show ?thesis by (simp add: Cons.IH)
  qed
qed

lemma fire_append: "fire p (rs @ ss) = fire p rs @ fire p ss"
  by (simp add: fire_def)

lemma offers_social_emit: "offers_social p v = emit (fire p rules_social) v"
  by (simp add: offers_social_def rules_social_def fire_def emit_Cons_fun)

lemma offers_rse_emit: "offers_rse p v = emit (fire p rules_rse) v"
  by (simp add: offers_rse_def rules_rse_def fire_def emit_Cons_fun)

lemma offers_coaching_emit: "offers_coaching p v = emit (fire p rules_coaching) v"
  by (simp add: offers_coaching_def rules_coaching_def fire_def emit_Cons_fun)

lemma offers_patrimoine_emit: "offers_patrimoine p v = emit (fire p rules_patrimoine) v"
  by (simp add: offers_patrimoine_def rules_patrimoine_def fire_def emit_Cons_fun)

lemma offers_fiscal_emit: "offers_fiscal p v = emit (fire p rules_fiscal) v"
  by (simp add: offers_fiscal_def rules_fiscal_def fire_def emit_Cons_fun)

lemma offers_gestion_emit: "offers_gestion p v = emit (fire p rules_gestion) v"
  by (simp add: offers_gestion_def rules_gestion_def fire_def emit_Cons_fun)

lemma offers_digital_emit: "offers_digital p v = emit (fire p rules_digital) v"
  by (simp add: offers_digital_def rules_digital_def fire_def emit_Cons_fun)

lemma offers_secteur_emit: "offers_secteur p v = emit (fire p rules_secteur) v"
  by (simp add: offers_secteur_def rules_secteur_def fire_def emit_Cons_fun)

lemma offers_transmission_emit: "offers_transmission p v = emit (fire p rules_transmission) v"
  by (simp add: offers_transmission_def rules_transmission_def fire_def emit_Cons_fun)

lemma run_sections_step:
  assumes "\<And>v. f v = emit xs v" and "\<And>v. run_sections fs v = emit ys v"
  shows "run_sections (f # fs) v = emit (xs @ ys) v"
proof -
  have "run_sections fs = emit ys"
    using assms(2) by (rule ext)
  then show ?thesis
    by (simp add: emit_append assms(1))
qed

lemma collect_offers_emit:
  "collect_offers p = emit (fire p offer_rules) \<lparr>offers_v = [], rationales_v = Map.empty\<rparr>"
proof -
  have "run_sections
          [offers_social p, offers_rse p, offers_coaching p, offers_patrimoine p, offers_fiscal p,
           offers_gestion p, offers_digital p, offers_secteur p, offers_transmission p] v
        = emit (fire p rules_social @ fire p rules_rse @ fire p rules_coaching
                @ fire p rules_patrimoine @ fire p rules_fiscal @ fire p rules_gestion
                @ fire p rules_digital @ fire p rules_secteur @ fire p rules_transmission @ []) v"
    for v
    by (intro run_sections_step offers_social_emit offers_rse_emit offers_coaching_emit
        offers_patrimoine_emit offers_fiscal_emit offers_gestion_emit offers_digital_emit
        offers_secteur_emit offers_transmission_emit) simp
  then show ?thesis
    by (simp add: collect_offers_def offer_rules_def fire_append)
qed

lemma fire_subset: "set (fire p rs) \<subseteq> snd ` set rs"
  by (auto simp: fire_def)

lemma fire_codes_distinct:
  assumes "distinct (map (\<lambda>r. fst (snd r)) rs)"
  shows "distinct (map fst (fire p rs))"
proof -
  have "map fst (fire p rs) = map (\<lambda>r. fst (snd r)) (filter (\<lambda>r. fst r p) rs)"
    by (simp add: fire_def comp_def)
  with assms show ?thesis
    by (simp add: distinct_map_filter)
qed

lemma fire_code_iff:
  "c \<in> fst ` set (fire p rs) \<longleftrightarrow> (\<exists>r\<in>set rs. fst r p \<and> fst (snd r) = c)"
  by (force simp: fire_def)

lemma offer_rules_codes:
  "map (\<lambda>r. fst (snd r)) offer_rules =
     [''social_plus'', ''social_basique'', ''social_premium'', ''rse_diag'', ''rse_reporting'',
      ''coaching_light'', ''coaching_pro'', ''patrimoine_base'', ''patrimoine_avance'',
      ''fiscal_part'', ''international'', ''tresorerie'', ''gestion_budget'', ''revue_qualite'',
      ''digital_start'', ''digital_full'', ''btp_pack'', ''retraite'', ''succession'']"
  by (simp add: offer_rules_def rules_social_def rules_rse_def rules_coaching_def
      rules_patrimoine_def rules_fiscal_def rules_gestion_def rules_digital_def
      rules_secteur_def rules_transmission_def)

lemma offer_rules_distinct: "distinct (map (\<lambda>r. fst (snd r)) offer_rules)"
  unfolding offer_rules_codes by simp

lemma offer_rules_in_catalog: "\<forall>c\<in>set (map (\<lambda>r. fst (snd r)) offer_rules). PRICING_TABLE c \<noteq> None"
  unfolding offer_rules_codes by (simp add: PRICING_TABLE_def)

lemma fire_in_catalog: "\<forall>x\<in>set (fire p offer_rules). PRICING_TABLE (fst x) \<noteq> None"
proof
  fix x
  assume "x \<in> set (fire p offer_rules)"
  then obtain r where "r \<in> set offer_rules" and "x = snd r"
    using fire_subset [of p offer_rules] by auto
  then show "PRICING_TABLE (fst x) \<noteq> None"
    using offer_rules_in_catalog by simp
qed

lemma safe_add_apply:
  "safe_add dic key v l =
     (if l = key then Some ((case dic key of None \<Rightarrow> [] | Some vs \<Rightarrow> vs) @ [v]) else dic l)"
  by (simp add: safe_add_def Let_def split: option.splits)

lemma justified_safe_add: "justified (safe_add dic key v) key"
  by (simp add: justified_def safe_add_apply)

lemma justified_safe_add_mono: "justified dic l \<Longrightarrow> justified (safe_add dic key v) l"
  by (simp add: justified_def safe_add_apply split: option.splits)

lemma add_offer_Inr:
  assumes "add_offer c reason v = Inr v1"
  obtains info where "PRICING_TABLE c = Some info"
    and "offers_v v1 = offers_v v @ [\<lparr>libelle = libelle info, prix = prix info, code = c\<rparr>]"
    and "rationales_v v1 = safe_add (rationales_v v) (libelle info) reason"
  using assms by (auto simp: add_offer_def split: option.splits)

lemma add_offer_total: "PRICING_TABLE c \<noteq> None \<Longrightarrow> \<exists>v1. add_offer c reason v = Inr v1"
  by (auto simp: add_offer_def)

lemma emit_total:
  "\<forall>x\<in>set xs. PRICING_TABLE (fst x) \<noteq> None \<Longrightarrow> \<exists>v1. emit xs v = Inr v1"
proof (induction xs arbitrary: v)
  case Nil
  show ?case by simp
next
  case (Cons x xs)
  from Cons.prems obtain v1 where "add_offer (fst x) (snd x) v = Inr v1"
    using add_offer_total [of "fst x" "snd x" v] by auto
  moreover from Cons.prems obtain v2 where "emit xs v1 = Inr v2"
    using Cons.IH [of v1] by auto
  ultimately show ?case by simp
qed

lemma emit_codes:
  "emit xs v = Inr v1 \<Longrightarrow> map code (offers_v v1) = map code (offers_v v) @ map fst xs"
proof (induction xs arbitrary: v)
  case Nil
  then show ?case by simp
next
  case (Cons x xs)
  show ?case
  proof (cases "add_offer (fst x) (snd x) v")
    case (Inl e)
    with Cons.prems show ?thesis by simp
  next
    case (Inr v2)
    then have "map code (offers_v v2) = map code (offers_v v) @ [fst x]"
      by (elim add_offer_Inr) simp
    moreover from Inr Cons.prems have "emit xs v2 = Inr v1" by simp
    ultimately show ?thesis
      using Cons.IH [of v2] by simp
  qed
qed

lemma emit_in_catalog:
  "emit xs v = Inr v1 \<Longrightarrow> \<forall>x\<in>set (offers_v v). in_catalog x
     \<Longrightarrow> \<forall>x\<in>set (offers_v v1). in_catalog x"
proof (induction xs arbitrary: v)
  case Nil
  then show ?case by simp
next
  case (Cons x xs)
  show ?case
  proof (cases "add_offer (fst x) (snd x) v")
    case (Inl e)
    with Cons.prems show ?thesis by simp
  next
    case (Inr v2)
    then have "\<forall>y\<in>set (offers_v v2). in_catalog y"
      using Cons.prems(2) by (elim add_offer_Inr) (auto simp: in_catalog_def)
    moreover from Inr Cons.prems have "emit xs v2 = Inr v1" by simp
    ultimately show ?thesis
      using Cons.IH [of v2] by simp
  qed
qed

lemma emit_justified:
  "emit xs v = Inr v1 \<Longrightarrow> \<forall>x\<in>set (offers_v v). justified (rationales_v v) (libelle x)
     \<Longrightarrow> \<forall>x\<in>set (offers_v v1). justified (rationales_v v1) (libelle x)"
proof (induction xs arbitrary: v)
  case Nil
  then show ?case by simp
next
  case (Cons x xs)
  show ?case
  proof (cases "add_offer (fst x) (snd x) v")
    case (Inl e)
    with Cons.prems show ?thesis by simp
  next
    case (Inr v2)
    then have "\<forall>y\<in>set (offers_v v2). justified (rationales_v v2) (libelle y)"
      using Cons.prems(2)
      by (elim add_offer_Inr) (auto simp: justified_safe_add justified_safe_add_mono)
    moreover from Inr Cons.prems have "emit xs v2 = Inr v1" by simp
    ultimately show ?thesis
      using Cons.IH [of v2] by simp
  qed
qed

lemma dedup_loop_keep_first:
  "dedup_loop xs seen acc = acc @ keep_first (filter (\<lambda>y. code y \<notin> seen) xs)"
proof (induction xs arbitrary: seen acc)
  case Nil
  show ?case by simp
next
  case (Cons x xs)
  show ?case
  proof (cases "code x \<in> seen")
    case True
    then show ?thesis by (simp add: Cons.IH)
  next
    case False
    have "filter (\<lambda>y. code y \<noteq> code x) (filter (\<lambda>y. code y \<notin> seen) xs)
          = filter (\<lambda>y. code y \<notin> insert (code x) seen) xs"
      by (simp add: conj_commute)
    with False show ?thesis by (simp add: Cons.IH)
  qed
qed

lemma keep_first_subset: "set (keep_first xs) \<subseteq> set xs"
proof (induction xs rule: keep_first.induct)
  case 1
  show ?case by simp
next
  case (2 x xs)
  then show ?case by auto
qed

lemma keep_first_distinct: "distinct (map code (keep_first xs))"
proof (induction xs rule: keep_first.induct)
  case 1
  show ?case by simp
next
  case (2 x xs)
  have "code x \<notin> code ` set (keep_first (filter (\<lambda>y. code y \<noteq> code x) xs))"
    using keep_first_subset [of "filter (\<lambda>y. code y \<noteq> code x) xs"] by auto
  with 2 show ?case by simp
qed

lemma keep_first_id: "distinct (map code xs) \<Longrightarrow> keep_first xs = xs"
proof (induction xs)
  case Nil
  show ?case by simp
next
  case (Cons x xs)
  from Cons.prems have "code x \<notin> code ` set xs"
    by simp
  then have "\<forall>y\<in>set xs. code y \<noteq> code x"
    by (metis imageI)
  then have "filter (\<lambda>y. code y \<noteq> code x) xs = xs"
    by (simp add: filter_id_conv)
  with Cons show ?case by simp
qed

text \<open>What every run of the engine satisfies; the claims below are read off this lemma.\<close>

lemma collect_offers_run:
  obtains v where "collect_offers p = Inr v"
    and "map code (offers_v v) = map fst (fire p offer_rules)"
    and "distinct (map code (offers_v v))"
    and "\<forall>x\<in>set (offers_v v). in_catalog x"
    and "\<forall>x\<in>set (offers_v v). justified (rationales_v v) (libelle x)"
proof -
  let ?v0 = "\<lparr>offers_v = [], rationales_v = Map.empty\<rparr>"
  obtain v where run: "emit (fire p offer_rules) ?v0 = Inr v"
    using emit_total [OF fire_in_catalog, of p ?v0] by auto
  have codes: "map code (offers_v v) = map fst (fire p offer_rules)"
    using emit_codes [OF run] by simp
  show ?thesis
  proof
    show "collect_offers p = Inr v"
      by (simp add: collect_offers_emit run)
    show "map code (offers_v v) = map fst (fire p offer_rules)"
      by (rule codes)
    show "distinct (map code (offers_v v))"
      unfolding codes by (rule fire_codes_distinct [OF offer_rules_distinct])
    show "\<forall>x\<in>set (offers_v v). in_catalog x"
      using emit_in_catalog [OF run] by simp
    show "\<forall>x\<in>set (offers_v v). justified (rationales_v v) (libelle x)"
      using emit_justified [OF run] by simp
  qed
qed

lemma compute_offers_run:
  assumes "collect_offers p = Inr v" and "distinct (map code (offers_v v))"
  shows "compute_offers p =
           Inr \<lparr>offers = offers_v v, rationales = rationales_v v,
                total_ht = sum_list (map prix (offers_v v))\<rparr>"
  using assms by (simp add: compute_offers_def dedup_loop_keep_first keep_first_id Let_def)

lemma compute_offers_total:
  obtains r where "compute_offers p = Inr r"
proof -
  obtain v where "collect_offers p = Inr v" and "distinct (map code (offers_v v))"
    by (rule collect_offers_run)
  then show ?thesis
    using compute_offers_run that by blast
qed

lemma add_offer_error_iff: "(\<exists>e. add_offer c reason v = Inl e) \<longleftrightarrow> PRICING_TABLE c = None"
  by (auto simp: add_offer_def split: option.splits)

lemmas rule_tables =
  offer_rules_def rules_social_def rules_rse_def rules_coaching_def rules_patrimoine_def
  rules_fiscal_def rules_gestion_def rules_digital_def rules_secteur_def rules_transmission_def

lemma fired_social:
  "''social_plus'' \<in> set (map fst (fire p offer_rules))
     \<longleftrightarrow> nb_salaries p > 0 \<and> (nb_salaries p \<ge> 11 \<or> presence_cadres p)"
  "''social_basique'' \<in> set (map fst (fire p offer_rules))
     \<longleftrightarrow> nb_salaries p > 0 \<and> \<not> (nb_salaries p \<ge> 11 \<or> presence_cadres p)"
  by (simp_all add: fire_code_iff rule_tables)

lemma fired_coaching:
  "''coaching_light'' \<in> set (map fst (fire p offer_rules))
     \<longleftrightarrow> coaching_client p \<and> patrimoine_dirigeant p = ''Modeste''"
  "''coaching_pro'' \<in> set (map fst (fire p offer_rules))
     \<longleftrightarrow> coaching_client p \<and> patrimoine_dirigeant p = ''Important''"
  by (simp_all add: fire_code_iff rule_tables)

lemma fired_digital:
  "''digital_start'' \<in> set (map fst (fire p offer_rules))
     \<longleftrightarrow> digitalisation p = ''Pas informatique''"
  "''digital_full'' \<in> set (map fst (fire p offer_rules))
     \<longleftrightarrow> digitalisation p = ''Informatique rudimentaire''"
  by (simp_all add: fire_code_iff rule_tables)

lemma fired_unconditional:
  "''gestion_budget'' \<in> set (map fst (fire p offer_rules))"
  "''revue_qualite'' \<in> set (map fst (fire p offer_rules))"
  by (simp_all add: fire_code_iff rule_tables)

lemmas engine_defs =
  compute_offers_def collect_offers_def add_offer_def offers_social_def offers_rse_def
  offers_coaching_def offers_patrimoine_def offers_fiscal_def offers_gestion_def
  offers_digital_def offers_secteur_def offers_transmission_def PRICING_TABLE_def Let_def

lemma scenario_a_run:
  assumes "compute_offers (scenario_a n t) = Inr r"
  shows "map code (offers r) = scenario_a_codes" and "total_ht r = 940"
  using assms by (auto simp: engine_defs scenario_a_def scenario_a_codes_def)

lemma scenario_b_run:
  assumes "compute_offers scenario_b = Inr r"
  shows "map code (offers r) = scenario_b_codes" and "total_ht r = 9410"
  using assms by (auto simp: engine_defs scenario_b_def scenario_b_codes_def)

lemma compliance_steps:
  "compliance_v (seg_size p v) = compliance_v v"
  "compliance_v (seg_sector p v) = (if secteur p = ''BTP'' then (''Renforc'' @ [CHR 0xC3, CHR 0xA9] @ ''e'') else compliance_v v)"
  "compliance_v (seg_hr p v) = (if nb_salaries p \<ge> 11 then (''Renforc'' @ [CHR 0xC3, CHR 0xA9] @ ''e'') else compliance_v v)"
  "compliance_v (seg_rse p v) = compliance_v v"
  "compliance_v (seg_digital p v) = compliance_v v"
  "compliance_v (seg_dirigeant p v) = compliance_v v"
  "compliance_v (seg_fiscal p v) =
     (if ''International'' \<in> set (particulier_fiscal p) then (''Renforc'' @ [CHR 0xC3, CHR 0xA9] @ ''e'') else compliance_v v)"
  by (simp_all add: seg_size_def seg_sector_def seg_hr_def seg_rse_def seg_digital_def
      seg_dirigeant_def seg_fiscal_def Let_def)

lemma segment_steps:
  "segment_v (seg_size p v) = segment_v v @
     [if nb_salaries p = 0 \<or> type_contrats p = (''Aucun salari'' @ [CHR 0xC3, CHR 0xA9]) then (''Solo/Tr'' @ [CHR 0xC3, CHR 0xA8] @ ''s petite structure'')
      else if nb_salaries p < 11 then ''TPE < 11'' else (''PME '' @ [CHR 0xE2, CHR 0x89, CHR 0xA5] @ '' 11'')]"
  "segment_v (seg_sector p v) = segment_v v @ (if secteur p = ''BTP'' then [''BTP''] else [])"
  "segment_v (seg_hr p v) = segment_v v"
  "segment_v (seg_rse p v) = segment_v v"
  "segment_v (seg_digital p v) = segment_v v"
  "segment_v (seg_dirigeant p v) = segment_v v"
  "segment_v (seg_fiscal p v) = segment_v v"
  by (simp_all add: seg_size_def seg_sector_def seg_hr_def seg_rse_def seg_digital_def
      seg_dirigeant_def seg_fiscal_def Let_def)

lemma infer_segment_compliance:
  "compliance_intensity (infer_segment p) =
     (if secteur p = ''BTP'' \<or> nb_salaries p \<ge> 11 \<or> ''International'' \<in> set (particulier_fiscal p)
      then (''Renforc'' @ [CHR 0xC3, CHR 0xA9] @ ''e'') else ''Standard'')"
  by (simp add: infer_segment_def infer_segment_vars_def Let_def compliance_steps)

lemma infer_segment_tags:
  "segment_v (infer_segment_vars p) =
     (if nb_salaries p = 0 \<or> type_contrats p = (''Aucun salari'' @ [CHR 0xC3, CHR 0xA9]) then (''Solo/Tr'' @ [CHR 0xC3, CHR 0xA8] @ ''s petite structure'')
      else if nb_salaries p < 11 then ''TPE < 11'' else (''PME '' @ [CHR 0xE2, CHR 0x89, CHR 0xA5] @ '' 11''))
     # (if secteur p = ''BTP'' then [''BTP''] else [])"
  by (simp add: infer_segment_vars_def Let_def segment_steps)

lemma infer_segment_label:
  "segment (infer_segment p) = join_str '' | '' (segment_v (infer_segment_vars p))"
  by (simp add: infer_segment_def Let_def infer_segment_tags)

lemma scenario_a_segment:
  "segment (infer_segment (scenario_a n t)) = (''Solo/Tr'' @ [CHR 0xC3, CHR 0xA8] @ ''s petite structure'')"
  "compliance_intensity (infer_segment (scenario_a n t)) = ''Standard''"
  by (simp_all add: infer_segment_label infer_segment_tags infer_segment_compliance scenario_a_def)

lemma simulates_skip: "simulates skip_st Inr"
  by (simp add: simulates_def skip_st_def)

lemma simulates_add_offer: "simulates (add_offer_st c reason) (add_offer c reason)"
  by (simp add: simulates_def add_offer_st_def add_offer_def split: option.splits)

lemma simulates_seq:
  assumes "simulates m1 f" and "simulates m2 g"
  shows "simulates (seq_st m1 m2) (\<lambda>v. then_do (f v) g)"
  unfolding simulates_def
proof (intro allI impI)
  fix s :: py_state
  assume s: "g_PRICING_TABLE s = PRICING_TABLE"
  have "g_PRICING_TABLE (snd (m1 s)) = PRICING_TABLE
        \<and> (case f (f_offers s) of Inl e \<Rightarrow> fst (m1 s) = Inl e
           | Inr v \<Rightarrow> m1 s = (Inr (), s\<lparr>f_offers := v\<rparr>))"
    using assms(1) s unfolding simulates_def by blast
  then have t1: "g_PRICING_TABLE (snd (m1 s)) = PRICING_TABLE"
    and r1: "case f (f_offers s) of Inl e \<Rightarrow> fst (m1 s) = Inl e
             | Inr v \<Rightarrow> m1 s = (Inr (), s\<lparr>f_offers := v\<rparr>)"
    by simp_all
  show "g_PRICING_TABLE (snd (seq_st m1 m2 s)) = PRICING_TABLE
        \<and> (case then_do (f (f_offers s)) g of
             Inl e \<Rightarrow> fst (seq_st m1 m2 s) = Inl e
           | Inr v \<Rightarrow> seq_st m1 m2 s = (Inr (), s\<lparr>f_offers := v\<rparr>))"
  proof (cases "f (f_offers s)")
    case (Inl e)
    with r1 have "fst (m1 s) = Inl e" by simp
    then obtain s1 where "m1 s = (Inl e, s1)"
      by (cases "m1 s") simp
    with t1 Inl show ?thesis
      by (simp add: seq_st_def)
  next
    case (Inr v)
    with r1 have m1: "m1 s = (Inr (), s\<lparr>f_offers := v\<rparr>)" by simp
    let ?s1 = "s\<lparr>f_offers := v\<rparr>"
    have s1: "g_PRICING_TABLE ?s1 = PRICING_TABLE"
      using s by simp
    have "g_PRICING_TABLE (snd (m2 ?s1)) = PRICING_TABLE
          \<and> (case g (f_offers ?s1) of Inl e \<Rightarrow> fst (m2 ?s1) = Inl e
             | Inr v' \<Rightarrow> m2 ?s1 = (Inr (), ?s1\<lparr>f_offers := v'\<rparr>))"
      using assms(2) s1 unfolding simulates_def by blast
    with Inr m1 show ?thesis
      by (simp add: seq_st_def split: sum.splits)
  qed
qed

lemma simulates_if:
  assumes "b \<Longrightarrow> simulates m1 f" and "\<not> b \<Longrightarrow> simulates m2 g"
  shows "simulates (if b then m1 else m2) (\<lambda>v. if b then f v else g v)"
  using assms by (cases b) (simp_all add: simulates_def)

lemmas simulates_intros =
  simulates_seq simulates_if simulates_add_offer simulates_skip

lemma simulates_social: "simulates (offers_social_st p) (offers_social p)"
  unfolding offers_social_st_def offers_social_def [abs_def] by (intro simulates_intros)

lemma simulates_rse: "simulates (offers_rse_st p) (offers_rse p)"
  unfolding offers_rse_st_def offers_rse_def [abs_def] by (intro simulates_intros)

lemma simulates_coaching: "simulates (offers_coaching_st p) (offers_coaching p)"
  unfolding offers_coaching_st_def offers_coaching_def [abs_def] by (intro simulates_intros)

lemma simulates_patrimoine: "simulates (offers_patrimoine_st p) (offers_patrimoine p)"
  unfolding offers_patrimoine_st_def offers_patrimoine_def [abs_def] by (intro simulates_intros)

lemma simulates_fiscal: "simulates (offers_fiscal_st p) (offers_fiscal p)"
  unfolding offers_fiscal_st_def offers_fiscal_def [abs_def] by (intro simulates_intros)

lemma simulates_gestion: "simulates (offers_gestion_st p) (offers_gestion p)"
  unfolding offers_gestion_st_def offers_gestion_def [abs_def] by (intro simulates_intros)

lemma simulates_digital: "simulates (offers_digital_st p) (offers_digital p)"
  unfolding offers_digital_st_def offers_digital_def [abs_def] by (intro simulates_intros)

lemma simulates_secteur: "simulates (offers_secteur_st p) (offers_secteur p)"
  unfolding offers_secteur_st_def offers_secteur_def [abs_def] by (intro simulates_intros)

lemma simulates_transmission: "simulates (offers_transmission_st p) (offers_transmission p)"
  unfolding offers_transmission_st_def offers_transmission_def [abs_def] by (intro simulates_intros)

lemma simulates_run_Nil: "simulates (run_stmts []) (run_sections [])"
proof -
  have "run_stmts [] = skip_st" and "run_sections [] = Inr"
    by (rule ext, simp)+
  then show ?thesis
    by (simp add: simulates_skip)
qed

lemma simulates_run_Cons:
  assumes "simulates m f" and "simulates (run_stmts ms) (run_sections fs)"
  shows "simulates (run_stmts (m # ms)) (run_sections (f # fs))"
proof -
  have "run_stmts (m # ms) = seq_st m (run_stmts ms)"
    and "run_sections (f # fs) = (\<lambda>v. then_do (f v) (run_sections fs))"
    by (rule ext, simp)+
  then show ?thesis
    using simulates_seq [OF assms] by simp
qed

lemma simulates_blocks:
  "simulates
     (run_stmts
        [offers_social_st p, offers_rse_st p, offers_coaching_st p, offers_patrimoine_st p,
         offers_fiscal_st p, offers_gestion_st p, offers_digital_st p, offers_secteur_st p,
         offers_transmission_st p])
     (run_sections
        [offers_social p, offers_rse p, offers_coaching p, offers_patrimoine p, offers_fiscal p,
         offers_gestion p, offers_digital p, offers_secteur p, offers_transmission p])"
  by (intro simulates_run_Cons simulates_run_Nil simulates_social simulates_rse
      simulates_coaching simulates_patrimoine simulates_fiscal simulates_gestion
      simulates_digital simulates_secteur simulates_transmission)

lemma compute_offers_st_pure:
  assumes "g_PRICING_TABLE s = PRICING_TABLE"
  shows "fst (compute_offers_st p s) = compute_offers p"
    and "g_PRICING_TABLE (snd (compute_offers_st p s)) = PRICING_TABLE"
proof -
  let ?v0 = "\<lparr>offers_v = [], rationales_v = Map.empty\<rparr>"
  let ?s0 = "s\<lparr>f_offers := ?v0\<rparr>"
  let ?run = "run_stmts
        [offers_social_st p, offers_rse_st p, offers_coaching_st p, offers_patrimoine_st p,
         offers_fiscal_st p, offers_gestion_st p, offers_digital_st p, offers_secteur_st p,
         offers_transmission_st p]"
  have s0: "g_PRICING_TABLE ?s0 = PRICING_TABLE"
    using assms by simp
  have co: "collect_offers p =
              run_sections
                [offers_social p, offers_rse p, offers_coaching p, offers_patrimoine p,
                 offers_fiscal p, offers_gestion p, offers_digital p, offers_secteur p,
                 offers_transmission p] (f_offers ?s0)"
    by (simp add: collect_offers_def del: run_sections.simps)
  have sim: "g_PRICING_TABLE (snd (?run ?s0)) = PRICING_TABLE
        \<and> (case collect_offers p of
             Inl e \<Rightarrow> fst (?run ?s0) = Inl e
           | Inr v \<Rightarrow> ?run ?s0 = (Inr (), ?s0\<lparr>f_offers := v\<rparr>))"
    using simulates_blocks [of p] s0 unfolding simulates_def co by blast
  have "fst (compute_offers_st p s) = compute_offers p
        \<and> g_PRICING_TABLE (snd (compute_offers_st p s)) = PRICING_TABLE"
  proof (cases "collect_offers p")
    case (Inl e)
    with sim obtain s1 where "?run ?s0 = (Inl e, s1)" and "g_PRICING_TABLE s1 = PRICING_TABLE"
      by (cases "?run ?s0") auto
    with Inl show ?thesis
      by (simp add: compute_offers_st_def compute_offers_def Let_def del: run_stmts.simps)
  next
    case (Inr v)
    with sim have "?run ?s0 = (Inr (), ?s0\<lparr>f_offers := v\<rparr>)"
      by simp
    with Inr assms show ?thesis
      by (simp add: compute_offers_st_def compute_offers_def Let_def del: run_stmts.simps)
  qed
  then show "fst (compute_offers_st p s) = compute_offers p"
    and "g_PRICING_TABLE (snd (compute_offers_st p s)) = PRICING_TABLE"
    by simp_all
qed

lemma infer_segment_st_pure:
  "fst (infer_segment_st p s) = infer_segment p"
  "g_PRICING_TABLE (snd (infer_segment_st p s)) = g_PRICING_TABLE s"
  by (simp_all add: infer_segment_st_def infer_segment_def infer_segment_vars_def Let_def)

lemma do_call_pure:
  assumes "g_PRICING_TABLE s = PRICING_TABLE"
  shows "fst (do_call c s) = answer_of c
         \<and> g_PRICING_TABLE (snd (do_call c s)) = PRICING_TABLE"
proof (cases c)
  case (InferSegment p)
  then show ?thesis
    using assms by (simp add: case_prod_beta infer_segment_st_pure)
next
  case (ComputeOffers p)
  then show ?thesis
    using compute_offers_st_pure [OF assms, of p] by (simp add: case_prod_beta)
qed

lemma run_calls_pure:
  assumes "g_PRICING_TABLE s = PRICING_TABLE"
  shows "fst (run_calls cs s) = map answer_of cs
         \<and> g_PRICING_TABLE (snd (run_calls cs s)) = PRICING_TABLE"
  using assms
proof (induction cs arbitrary: s)
  case Nil
  then show ?case by simp
next
  case (Cons c cs)
  obtain a s1 where c: "do_call c s = (a, s1)"
    by (cases "do_call c s")
  with do_call_pure [OF Cons.prems, of c] have a: "a = answer_of c"
    and s1: "g_PRICING_TABLE s1 = PRICING_TABLE"
    by simp_all
  obtain as s2 where cs: "run_calls cs s1 = (as, s2)"
    by (cases "run_calls cs s1")
  with Cons.IH [OF s1] have "as = map answer_of cs" and "g_PRICING_TABLE s2 = PRICING_TABLE"
    by simp_all
  with a c cs show ?case by simp
qed

section \<open>The claims\<close>

text \<open>
  C1.  For every profile the engine returns, the returned offer list keeps the first
  occurrence of each code of the raw list, in the order of the rules, so it holds each code
  at most once; every offer carries the label and the price of the catalog entry of its
  code; and \<^verbatim>\<open>total_ht\<close> is the sum of the prices over the returned list.
\<close>

theorem offers_deduplicated_total:
  "\<exists>v r. collect_offers p = Inr v \<and> compute_offers p = Inr r
     \<and> offers r = keep_first (offers_v v)
     \<and> distinct (map code (offers r))
     \<and> (\<forall>x\<in>set (offers r). in_catalog x)
     \<and> total_ht r = sum_list (map prix (offers r))"
proof -
  obtain v where run: "collect_offers p = Inr v"
    and dist: "distinct (map code (offers_v v))"
    and cat: "\<forall>x\<in>set (offers_v v). in_catalog x"
    by (rule collect_offers_run)
  let ?r = "\<lparr>offers = offers_v v, rationales = rationales_v v,
            total_ht = sum_list (map prix (offers_v v))\<rparr>"
  have "compute_offers p = Inr ?r"
    using run dist by (rule compute_offers_run)
  moreover have "offers ?r = keep_first (offers_v v)"
    using dist by (simp add: keep_first_id)
  ultimately show ?thesis
    using run dist cat by (intro exI [of _ v] exI [of _ ?r]) simp
qed

theorem offers_deduplicated_total_witness:
  "\<exists>v r. collect_offers scenario_b = Inr v \<and> compute_offers scenario_b = Inr r
     \<and> map code (offers r) =
         [''social_plus'', ''rse_diag'', ''rse_reporting'', ''coaching_pro'', ''patrimoine_base'',
          ''patrimoine_avance'', ''fiscal_part'', ''international'', ''tresorerie'',
          ''gestion_budget'', ''revue_qualite'', ''digital_start'', ''btp_pack'', ''retraite'',
          ''succession'']
     \<and> offers r = keep_first (offers_v v)
     \<and> distinct (map code (offers r))
     \<and> (\<forall>x\<in>set (offers r). in_catalog x)
     \<and> total_ht r = 9410
     \<and> sum_list (map prix (offers r)) = 9410"
proof -
  from offers_deduplicated_total [of scenario_b]
  obtain v r where a: "collect_offers scenario_b = Inr v" "compute_offers scenario_b = Inr r"
    "offers r = keep_first (offers_v v)" "distinct (map code (offers r))"
    "\<forall>x\<in>set (offers r). in_catalog x" "total_ht r = sum_list (map prix (offers r))"
    by (elim exE conjE)
  have "map code (offers r) = scenario_b_codes" and "total_ht r = 9410"
    using a(2) by (simp_all add: scenario_b_run)
  with a show ?thesis
    unfolding scenario_b_codes_def by (intro exI [of _ v] exI [of _ r]) simp
qed

text \<open>
  C2.  The compliance intensity returned by \<^verbatim>\<open>infer_segment\<close> is the reinforced level
  exactly when the sector is BTP, or there are at least eleven employees, or
  \<^verbatim>\<open>International\<close> is among the fiscal particularities; otherwise it is
  \<^verbatim>\<open>Standard\<close>.
\<close>

theorem compliance_intensity_iff:
  "(compliance_intensity (infer_segment p) = (''Renforc'' @ [CHR 0xC3, CHR 0xA9] @ ''e'')
      \<longleftrightarrow> secteur p = ''BTP'' \<or> nb_salaries p \<ge> 11
            \<or> ''International'' \<in> set (particulier_fiscal p))
   \<and> (compliance_intensity (infer_segment p) \<noteq> (''Renforc'' @ [CHR 0xC3, CHR 0xA9] @ ''e'')
      \<longrightarrow> compliance_intensity (infer_segment p) = ''Standard'')"
  by (simp add: infer_segment_compliance)

theorem compliance_intensity_iff_witness:
  "compliance_intensity (infer_segment scenario_b) = (''Renforc'' @ [CHR 0xC3, CHR 0xA9] @ ''e'')
   \<and> secteur scenario_b = ''BTP''
   \<and> compliance_intensity (infer_segment (scenario_a [] [])) = ''Standard''
   \<and> secteur (scenario_a [] []) \<noteq> ''BTP'' \<and> \<not> nb_salaries (scenario_a [] []) \<ge> 11
   \<and> ''International'' \<notin> set (particulier_fiscal (scenario_a [] []))"
  using compliance_intensity_iff [of scenario_b] compliance_intensity_iff [of "scenario_a [] []"]
  by (simp add: scenario_a_def scenario_b_def)

text \<open>
  C3.  The tags joined into the segment label start with one size tag, followed by the BTP
  tag when the sector is BTP, so exactly one of the three size tags is among them.  The
  size tag is a function of the employee count and of the contract type alone: the solo
  tag for no employee or the contract type of a firm without employees, else the tag
  \<^verbatim>\<open>TPE < 11\<close> for one to ten employees, else the tag of the firms of eleven employees
  or more.  The three size tags differ from one another.
\<close>

theorem segment_size_tag:
  "\<exists>tag. segment_v (infer_segment_vars p) = tag # (if secteur p = ''BTP'' then [''BTP''] else [])
     \<and> segment (infer_segment p) = join_str '' | '' (segment_v (infer_segment_vars p))
     \<and> filter (\<lambda>t. t \<in> set size_tags) (segment_v (infer_segment_vars p)) = [tag]
     \<and> distinct size_tags
     \<and> tag = (if nb_salaries p = 0 \<or> type_contrats p = (''Aucun salari'' @ [CHR 0xC3, CHR 0xA9])
              then (''Solo/Tr'' @ [CHR 0xC3, CHR 0xA8] @ ''s petite structure'')
              else if nb_salaries p < 11 then ''TPE < 11'' else (''PME '' @ [CHR 0xE2, CHR 0x89, CHR 0xA5] @ '' 11''))
     \<and> (nb_salaries p = 0 \<or> type_contrats p = (''Aucun salari'' @ [CHR 0xC3, CHR 0xA9])
          \<longrightarrow> tag = (''Solo/Tr'' @ [CHR 0xC3, CHR 0xA8] @ ''s petite structure''))
     \<and> (\<not> (nb_salaries p = 0 \<or> type_contrats p = (''Aucun salari'' @ [CHR 0xC3, CHR 0xA9]))
          \<and> 1 \<le> nb_salaries p \<and> nb_salaries p \<le> 10 \<longrightarrow> tag = ''TPE < 11'')
     \<and> (\<not> (nb_salaries p = 0 \<or> type_contrats p = (''Aucun salari'' @ [CHR 0xC3, CHR 0xA9]))
          \<and> 11 \<le> nb_salaries p \<longrightarrow> tag = (''PME '' @ [CHR 0xE2, CHR 0x89, CHR 0xA5] @ '' 11''))"
  by (simp add: infer_segment_tags infer_segment_label size_tags_def)

theorem segment_size_tag_witness:
  "segment_v (infer_segment_vars scenario_b) = [(''PME '' @ [CHR 0xE2, CHR 0x89, CHR 0xA5] @ '' 11''), ''BTP'']
   \<and> segment (infer_segment scenario_b) = (''PME '' @ [CHR 0xE2, CHR 0x89, CHR 0xA5] @ '' 11 | BTP'')
   \<and> filter (\<lambda>t. t \<in> set size_tags) (segment_v (infer_segment_vars scenario_b)) = [(''PME '' @ [CHR 0xE2, CHR 0x89, CHR 0xA5] @ '' 11'')]
   \<and> 11 \<le> nb_salaries scenario_b \<and> type_contrats scenario_b \<noteq> (''Aucun salari'' @ [CHR 0xC3, CHR 0xA9])"
proof -
  from segment_size_tag [of scenario_b]
  obtain tag where a:
    "segment_v (infer_segment_vars scenario_b) = tag # (if secteur scenario_b = ''BTP'' then [''BTP''] else [])"
    "segment (infer_segment scenario_b) = join_str '' | '' (segment_v (infer_segment_vars scenario_b))"
    "filter (\<lambda>t. t \<in> set size_tags) (segment_v (infer_segment_vars scenario_b)) = [tag]"
    "\<not> (nb_salaries scenario_b = 0 \<or> type_contrats scenario_b = (''Aucun salari'' @ [CHR 0xC3, CHR 0xA9]))
       \<and> 11 \<le> nb_salaries scenario_b \<longrightarrow> tag = (''PME '' @ [CHR 0xE2, CHR 0x89, CHR 0xA5] @ '' 11'')"
    by (elim exE conjE)
  have b: "secteur scenario_b = ''BTP''" "nb_salaries scenario_b = 15" "type_contrats scenario_b = ''CDI''"
    by (simp_all add: scenario_b_def)
  from a(4) have "tag = (''PME '' @ [CHR 0xE2, CHR 0x89, CHR 0xA5] @ '' 11'')"
    by (simp add: b)
  with a(1,2,3) show ?thesis
    by (simp add: b)
qed

text \<open>
  C4.  The returned offer list holds the codes \<^verbatim>\<open>gestion_budget\<close> and
  \<^verbatim>\<open>revue_qualite\<close>, whatever the profile.
\<close>

theorem unconditional_offers:
  "\<exists>r. compute_offers p = Inr r
     \<and> ''gestion_budget'' \<in> set (map code (offers r))
     \<and> ''revue_qualite'' \<in> set (map code (offers r))"
proof -
  obtain v where run: "collect_offers p = Inr v"
    and codes: "map code (offers_v v) = map fst (fire p offer_rules)"
    and dist: "distinct (map code (offers_v v))"
    by (rule collect_offers_run)
  have "''gestion_budget'' \<in> set (map code (offers_v v))"
    and "''revue_qualite'' \<in> set (map code (offers_v v))"
    unfolding codes by (rule fired_unconditional)+
  then show ?thesis
    by (simp add: compute_offers_run [OF run dist])
qed

text \<open>
  C5.  The returned offer list never holds both social packs of the first rule, nor both
  coaching packs, nor both digital packs.
\<close>

theorem exclusive_offers:
  "\<exists>r. compute_offers p = Inr r
     \<and> \<not> (''social_basique'' \<in> set (map code (offers r))
           \<and> ''social_plus'' \<in> set (map code (offers r)))
     \<and> \<not> (''coaching_light'' \<in> set (map code (offers r))
           \<and> ''coaching_pro'' \<in> set (map code (offers r)))
     \<and> \<not> (''digital_start'' \<in> set (map code (offers r))
           \<and> ''digital_full'' \<in> set (map code (offers r)))"
proof -
  obtain v where run: "collect_offers p = Inr v"
    and codes: "map code (offers_v v) = map fst (fire p offer_rules)"
    and dist: "distinct (map code (offers_v v))"
    by (rule collect_offers_run)
  have "\<not> (''social_basique'' \<in> set (map code (offers_v v))
           \<and> ''social_plus'' \<in> set (map code (offers_v v)))"
    unfolding codes fired_social by auto
  moreover have "\<not> (''coaching_light'' \<in> set (map code (offers_v v))
           \<and> ''coaching_pro'' \<in> set (map code (offers_v v)))"
    unfolding codes fired_coaching by auto
  moreover have "\<not> (''digital_start'' \<in> set (map code (offers_v v))
           \<and> ''digital_full'' \<in> set (map code (offers_v v)))"
    unfolding codes fired_digital by auto
  ultimately show ?thesis
    by (simp add: compute_offers_run [OF run dist])
qed

theorem exclusive_offers_witness:
  "\<exists>r. compute_offers scenario_b = Inr r
     \<and> ''social_plus'' \<in> set (map code (offers r))
     \<and> ''social_basique'' \<notin> set (map code (offers r))
     \<and> ''coaching_pro'' \<in> set (map code (offers r))
     \<and> ''coaching_light'' \<notin> set (map code (offers r))
     \<and> ''digital_start'' \<in> set (map code (offers r))
     \<and> ''digital_full'' \<notin> set (map code (offers r))"
proof -
  from exclusive_offers [of scenario_b]
  obtain r where a: "compute_offers scenario_b = Inr r"
    "\<not> (''social_basique'' \<in> set (map code (offers r))
           \<and> ''social_plus'' \<in> set (map code (offers r)))"
    "\<not> (''coaching_light'' \<in> set (map code (offers r))
           \<and> ''coaching_pro'' \<in> set (map code (offers r)))"
    "\<not> (''digital_start'' \<in> set (map code (offers r))
           \<and> ''digital_full'' \<in> set (map code (offers r)))"
    by (elim exE conjE)
  have "map code (offers r) = scenario_b_codes"
    using a(1) by (simp add: scenario_b_run)
  then have "''social_plus'' \<in> set (map code (offers r))"
    and "''coaching_pro'' \<in> set (map code (offers r))"
    and "''digital_start'' \<in> set (map code (offers r))"
    by (simp_all add: scenario_b_codes_def)
  with a show ?thesis
    by (intro exI [of _ r]) simp
qed

text \<open>
  C6.  Scenario A: no employee, sector \<^verbatim>\<open>Services\<close>, every toggle off, no fiscal
  particularity, rudimentary digitalisation.  The segment is the solo tag alone, and the
  offers are the budget dashboard, the quality review and the full digital pack, for a
  total of 940; no social, coaching or patrimonial offer is among them.
\<close>

theorem scenario_a_result:
  "segment (infer_segment (scenario_a n t)) = (''Solo/Tr'' @ [CHR 0xC3, CHR 0xA8] @ ''s petite structure'')
   \<and> (\<exists>r. compute_offers (scenario_a n t) = Inr r
         \<and> map code (offers r) = [''gestion_budget'', ''revue_qualite'', ''digital_full'']
         \<and> set (map code (offers r)) = {''digital_full'', ''gestion_budget'', ''revue_qualite''}
         \<and> set (map code (offers r))
             \<inter> {''social_basique'', ''social_plus'', ''social_premium'', ''coaching_light'',
                 ''coaching_pro'', ''patrimoine_base'', ''patrimoine_avance''} = {}
         \<and> total_ht r = 940)"
proof -
  obtain r where run: "compute_offers (scenario_a n t) = Inr r"
    by (rule compute_offers_total)
  have codes: "map code (offers r) = [''gestion_budget'', ''revue_qualite'', ''digital_full'']"
    using scenario_a_run(1) [OF run] by (simp add: scenario_a_codes_def)
  have "set (map code (offers r)) = {''digital_full'', ''gestion_budget'', ''revue_qualite''}"
    unfolding codes by auto
  moreover have "set (map code (offers r))
             \<inter> {''social_basique'', ''social_plus'', ''social_premium'', ''coaching_light'',
                 ''coaching_pro'', ''patrimoine_base'', ''patrimoine_avance''} = {}"
    unfolding codes by simp
  moreover have "total_ht r = 940"
    by (rule scenario_a_run(2) [OF run])
  ultimately show ?thesis
    using run codes scenario_a_segment(1) [of n t] by (intro conjI exI [of _ r]) simp_all
qed

text \<open>
  C7.  Every offer of the returned list has a non-empty list of justifications under its
  label in the returned rationale mapping.
\<close>

theorem rationale_complete:
  "\<exists>r. compute_offers p = Inr r
     \<and> (\<forall>x\<in>set (offers r). \<exists>js. rationales r (libelle x) = Some js \<and> js \<noteq> [])"
proof -
  obtain v where run: "collect_offers p = Inr v"
    and dist: "distinct (map code (offers_v v))"
    and just: "\<forall>x\<in>set (offers_v v). justified (rationales_v v) (libelle x)"
    by (rule collect_offers_run)
  have "\<forall>x\<in>set (offers_v v). \<exists>js. rationales_v v (libelle x) = Some js \<and> js \<noteq> []"
    using just by (auto simp: justified_def split: option.splits)
  then show ?thesis
    by (simp add: compute_offers_run [OF run dist])
qed

theorem rationale_complete_witness:
  "\<exists>r. compute_offers (scenario_a [] []) = Inr r
     \<and> map code (offers r) = [''gestion_budget'', ''revue_qualite'', ''digital_full'']
     \<and> (\<forall>x\<in>set (offers r). \<exists>js. rationales r (libelle x) = Some js \<and> js \<noteq> [])"
proof -
  from rationale_complete [of "scenario_a [] []"]
  obtain r where a: "compute_offers (scenario_a [] []) = Inr r"
    "\<forall>x\<in>set (offers r). \<exists>js. rationales r (libelle x) = Some js \<and> js \<noteq> []"
    by (elim exE conjE)
  have "map code (offers r) = [''gestion_budget'', ''revue_qualite'', ''digital_full'']"
    using scenario_a_run(1) [OF a(1)] by (simp add: scenario_a_codes_def)
  with a show ?thesis
    by (intro exI [of _ r]) simp
qed

text \<open>
  C8.  Every run of the engine ends without an exception: each lookup of
  \<^verbatim>\<open>add_offer\<close> finds its code in the catalog, so the codes of the raw list are all keys
  of the catalog and the result is never a \<^verbatim>\<open>KeyError\<close>.
\<close>

theorem compute_offers_never_raises:
  "(\<exists>v. collect_offers p = Inr v \<and> set (map code (offers_v v)) \<subseteq> dom PRICING_TABLE)
   \<and> (\<exists>r. compute_offers p = Inr r)
   \<and> (\<forall>e. compute_offers p \<noteq> Inl e)"
proof -
  obtain v where run: "collect_offers p = Inr v"
    and dist: "distinct (map code (offers_v v))"
    and cat: "\<forall>x\<in>set (offers_v v). in_catalog x"
    by (rule collect_offers_run)
  have "set (map code (offers_v v)) \<subseteq> dom PRICING_TABLE"
    using cat by (auto simp: in_catalog_def)
  with run show ?thesis
    by (simp add: compute_offers_run [OF run dist])
qed

text \<open>
  C9.  In a session of calls of the two engines on one process state that starts with the
  catalog as shipped, whatever the two slots of local variables hold at the start and
  whatever calls come in between, two calls on equal profiles return equal results: each
  call returns what \<^verbatim>\<open>infer_segment\<close> or \<^verbatim>\<open>compute_offers\<close> gives as a function of
  its profile, and the session leaves the catalog as shipped.
\<close>

theorem engines_deterministic:
  assumes "g_PRICING_TABLE s = PRICING_TABLE"
    and "i < length cs" and "j < length cs" and "cs ! i = cs ! j"
  shows "fst (run_calls cs s) ! i = fst (run_calls cs s) ! j
         \<and> fst (run_calls cs s) ! i = answer_of (cs ! i)
         \<and> g_PRICING_TABLE (snd (run_calls cs s)) = PRICING_TABLE"
proof -
  have "fst (run_calls cs s) = map answer_of cs"
    and "g_PRICING_TABLE (snd (run_calls cs s)) = PRICING_TABLE"
    using run_calls_pure [OF assms(1), of cs] by simp_all
  with assms(2-4) show ?thesis by simp
qed

theorem engines_deterministic_witness:
  "fst (run_calls [ComputeOffers scenario_b, InferSegment scenario_b,
                   ComputeOffers (scenario_a [] []), ComputeOffers scenario_b,
                   InferSegment scenario_b] used_state) ! 0
     = fst (run_calls [ComputeOffers scenario_b, InferSegment scenario_b,
                       ComputeOffers (scenario_a [] []), ComputeOffers scenario_b,
                       InferSegment scenario_b] used_state) ! 3
   \<and> fst (run_calls [ComputeOffers scenario_b, InferSegment scenario_b,
                     ComputeOffers (scenario_a [] []), ComputeOffers scenario_b,
                     InferSegment scenario_b] used_state) ! 1
     = fst (run_calls [ComputeOffers scenario_b, InferSegment scenario_b,
                       ComputeOffers (scenario_a [] []), ComputeOffers scenario_b,
                       InferSegment scenario_b] used_state) ! 4
   \<and> (\<exists>r. fst (run_calls [ComputeOffers scenario_b, InferSegment scenario_b,
                          ComputeOffers (scenario_a [] []), ComputeOffers scenario_b,
                          InferSegment scenario_b] used_state) ! 2 = Offers (Inr r)
          \<and> map code (offers r) = [''gestion_budget'', ''revue_qualite'', ''digital_full''])
   \<and> g_PRICING_TABLE used_state = PRICING_TABLE
   \<and> offers_v (f_offers used_state) \<noteq> []"
proof -
  let ?cs = "[ComputeOffers scenario_b, InferSegment scenario_b,
              ComputeOffers (scenario_a [] []), ComputeOffers scenario_b,
              InferSegment scenario_b]"
  have s: "g_PRICING_TABLE used_state = PRICING_TABLE"
    and used: "offers_v (f_offers used_state) \<noteq> []"
    by (simp_all add: used_state_def)
  have "fst (run_calls ?cs used_state) ! 0 = fst (run_calls ?cs used_state) ! 3"
    using engines_deterministic [OF s, of 0 ?cs 3] by simp
  moreover have "fst (run_calls ?cs used_state) ! 1 = fst (run_calls ?cs used_state) ! 4"
    using engines_deterministic [OF s, of 1 ?cs 4] by simp
  moreover have "\<exists>r. fst (run_calls ?cs used_state) ! 2 = Offers (Inr r)
          \<and> map code (offers r) = [''gestion_budget'', ''revue_qualite'', ''digital_full'']"
  proof -
    obtain r where r: "compute_offers (scenario_a [] []) = Inr r"
      by (rule compute_offers_total)
    have "fst (run_calls ?cs used_state) ! 2 = Offers (compute_offers (scenario_a [] []))"
      using engines_deterministic [OF s, of 2 ?cs 2] by simp
    moreover have "map code (offers r) = [''gestion_budget'', ''revue_qualite'', ''digital_full'']"
      using scenario_a_run(1) [OF r] by (simp add: scenario_a_codes_def)
    ultimately show ?thesis
      using r by simp
  qed
  ultimately show ?thesis
    using s used by simp
qed

text \<open>
  C10.  The raw offer list holds the codes of the rules whose guard holds, each rule once
  and in the order of the table, and the codes of the table differ from one another; so
  the raw codes are pairwise distinct, the deduplication loop returns the raw list as it
  is, and \<^verbatim>\<open>compute_offers\<close> equals the variant that returns the raw list with the
  total summed over it.
\<close>

theorem raw_offers_distinct:
  "\<exists>v. collect_offers p = Inr v
     \<and> map code (offers_v v) = map fst (fire p offer_rules)
     \<and> distinct (map (\<lambda>r. fst (snd r)) offer_rules)
     \<and> distinct (map code (offers_v v))
     \<and> dedup_loop (offers_v v) {} [] = offers_v v
     \<and> compute_offers p = compute_offers_raw p"
proof -
  obtain v where run: "collect_offers p = Inr v"
    and codes: "map code (offers_v v) = map fst (fire p offer_rules)"
    and dist: "distinct (map code (offers_v v))"
    by (rule collect_offers_run)
  have "dedup_loop (offers_v v) {} [] = offers_v v"
    using dist by (simp add: dedup_loop_keep_first keep_first_id)
  moreover have "compute_offers p = compute_offers_raw p"
    by (simp add: compute_offers_run [OF run dist] compute_offers_raw_def run)
  ultimately show ?thesis
    using run codes dist offer_rules_distinct by (intro exI [of _ v]) simp
qed

end
